theory Spec2Isabelle
  imports Main "HOL-Library.Word" "HOL-Library.Sublist"
begin

section \<open>JavaScript strings and values\<close>

text \<open>
  A JavaScript string is a sequence of 16-bit code units (UTF-16, where a surrogate may
  stand alone).  String literals of the source are ASCII and are written with
  \<open>ascii\<close>.
\<close>

type_synonym code_unit = "16 word"
type_synonym jsstring = "code_unit list"

definition ascii :: "string \<Rightarrow> jsstring" where
  "ascii s = map (\<lambda>c. of_nat (of_char c)) s"

text \<open>
  The values the client handles as data: what \<open>response.json()\<close> can deliver (JSON
  data) and \<open>undefined\<close>.  Numbers are the safe integers (magnitude at most
  \<open>2^53 - 1\<close>); fractions, \<open>NaN\<close> and the infinities are outside the embedding,
  and what is printed for an integer that is not safe is left open (see
  \<open>number_to_string\<close>).  An object is the list of its own properties in enumeration
  order.
\<close>

datatype jsval =
    JUndefined
  | JNull
  | JBool bool
  | JNum int
  | JStr jsstring
  | JArr "jsval list"
  | JObj "(jsstring \<times> jsval) list"

text \<open>
  Everything a \<open>throw\<close> or a rejected promise can carry.  The four SDK classes of
  \<open>src/index.js\<close> are constructors of their own; \<open>JsError name message\<close> is any other
  instance of \<open>Error\<close> (\<open>TypeError\<close>, \<open>SyntaxError\<close>, \<open>URIError\<close>, a
  \<open>DOMException\<close> named \<open>AbortError\<close>, ...), and \<open>NonError v\<close> is a thrown value that
  is no \<open>Error\<close> at all.  Message texts of engine errors are V8's.
\<close>

datatype thrown =
    WdkIndexerError jsstring
  | WdkIndexerApiError jsstring jsval jsval
  | WdkIndexerTimeoutError jsstring
  | WdkIndexerNetworkError jsstring "thrown option"
  | JsError jsstring jsstring
  | NonError jsval

text \<open>\<open>error instanceof WdkIndexerError\<close>: the base class and its three subclasses.\<close>

fun instanceof_WdkIndexerError :: "thrown \<Rightarrow> bool" where
  "instanceof_WdkIndexerError (WdkIndexerError _) = True"
| "instanceof_WdkIndexerError (WdkIndexerApiError _ _ _) = True"
| "instanceof_WdkIndexerError (WdkIndexerTimeoutError _) = True"
| "instanceof_WdkIndexerError (WdkIndexerNetworkError _ _) = True"
| "instanceof_WdkIndexerError (JsError _ _) = False"
| "instanceof_WdkIndexerError (NonError _) = False"

text \<open>\<open>error instanceof Error\<close>.\<close>

fun instanceof_Error :: "thrown \<Rightarrow> bool" where
  "instanceof_Error (NonError _) = False"
| "instanceof_Error _ = True"

text \<open>\<open>error.name\<close>, as each constructor of the source sets it.\<close>

fun error_name :: "thrown \<Rightarrow> jsstring" where
  "error_name (WdkIndexerError _) = ascii ''WdkIndexerError''"
| "error_name (WdkIndexerApiError _ _ _) = ascii ''WdkIndexerApiError''"
| "error_name (WdkIndexerTimeoutError _) = ascii ''WdkIndexerTimeoutError''"
| "error_name (WdkIndexerNetworkError _ _) = ascii ''WdkIndexerNetworkError''"
| "error_name (JsError n _) = n"
| "error_name (NonError _) = []"

text \<open>\<open>error.message\<close>.\<close>

fun error_message :: "thrown \<Rightarrow> jsstring" where
  "error_message (WdkIndexerError m) = m"
| "error_message (WdkIndexerApiError m _ _) = m"
| "error_message (WdkIndexerTimeoutError m) = m"
| "error_message (WdkIndexerNetworkError m _) = m"
| "error_message (JsError _ m) = m"
| "error_message (NonError _) = []"

definition TypeError :: "jsstring \<Rightarrow> thrown" where
  "TypeError m = JsError (ascii ''TypeError'') m"

subsection \<open>Numbers and values as strings\<close>

definition digit_unit :: "nat \<Rightarrow> code_unit" where
  "digit_unit d = of_nat (48 + d)"

fun nat_digits :: "nat \<Rightarrow> jsstring" where
  "nat_digits n =
     (if n < 10 then [digit_unit n] else nat_digits (n div 10) @ [digit_unit (n mod 10)])"

declare nat_digits.simps [simp del]

text \<open>\<open>Number.isSafeInteger\<close>: every integer of this range is a double of its own.\<close>

definition is_safe_integer :: "int \<Rightarrow> bool" where
  "is_safe_integer i = (- 9007199254740991 \<le> i \<and> i \<le> 9007199254740991)"

text \<open>
  \<open>String(n)\<close>, and \<open>n\<close> in a template literal.  For a safe integer
  \<open>Number::toString\<close> prints the decimal digits.  Beyond that range it prints the
  shortest digits that read back as the same double, in exponent form from \<open>10^21\<close>
  on; that text is not modelled and the value is left unspecified there, so that
  nothing is proved of it.
\<close>

definition number_to_string :: "int \<Rightarrow> jsstring" where
  "number_to_string i =
     (if is_safe_integer i
      then (if i < 0 then 0x2D # nat_digits (nat (- i)) else nat_digits (nat i))
      else undefined)"

text \<open>
  \<open>ToString\<close> on a data value.  An array is joined with commas, \<open>null\<close> and
  \<open>undefined\<close> elements printing as nothing.  A plain object prints through
  \<open>Object.prototype.toString\<close>, unless an own property \<open>toString\<close> (data, so not
  callable) shadows it: then \<open>valueOf\<close> cannot yield a primitive either and the
  conversion throws a \<open>TypeError\<close>.
\<close>

fun js_to_string :: "jsval \<Rightarrow> thrown + jsstring"
  and js_join :: "jsval list \<Rightarrow> thrown + jsstring" where
  "js_to_string JUndefined = Inr (ascii ''undefined'')"
| "js_to_string JNull = Inr (ascii ''null'')"
| "js_to_string (JBool b) = Inr (if b then ascii ''true'' else ascii ''false'')"
| "js_to_string (JNum i) = Inr (number_to_string i)"
| "js_to_string (JStr s) = Inr s"
| "js_to_string (JArr xs) = js_join xs"
| "js_to_string (JObj kvs) =
     (if ascii ''toString'' \<in> set (map fst kvs)
      then Inl (TypeError (ascii ''Cannot convert object to primitive value''))
      else Inr (ascii ''[object Object]''))"
| "js_join [] = Inr []"
| "js_join (x # xs) =
     (case (if x = JUndefined \<or> x = JNull then Inr [] else js_to_string x) of
        Inl e \<Rightarrow> Inl e
      | Inr s \<Rightarrow>
          (if xs = [] then Inr s
           else (case js_join xs of
                   Inl e \<Rightarrow> Inl e
                 | Inr r \<Rightarrow> Inr (s @ ascii '','' @ r))))"

subsection \<open>Property access\<close>

datatype js_type = T_undefined | T_object | T_boolean | T_number | T_string

fun typeof :: "jsval \<Rightarrow> js_type" where
  "typeof JUndefined = T_undefined"
| "typeof JNull = T_object"
| "typeof (JBool _) = T_boolean"
| "typeof (JNum _) = T_number"
| "typeof (JStr _) = T_string"
| "typeof (JArr _) = T_object"
| "typeof (JObj _) = T_object"

text \<open>
  The own property names of an object.  An array owns its indices and \<open>length\<close>.
\<close>

fun own_keys :: "jsval \<Rightarrow> jsstring list" where
  "own_keys (JObj kvs) = map fst kvs"
| "own_keys (JArr xs) = map nat_digits [0..<length xs] @ [ascii ''length'']"
| "own_keys _ = []"

text \<open>
  \<open>key in value\<close>.  The operator throws a \<open>TypeError\<close> when its right operand is not
  an object.  It also finds inherited properties; the five names the source looks for
  (\<open>error\<close>, \<open>message\<close>, \<open>status\<close>, \<open>transfers\<close>, \<open>tokenBalance\<close>) are not defined
  by \<open>Object.prototype\<close> or \<open>Array.prototype\<close>, so for them it is own-property
  membership.
\<close>

fun js_in :: "jsstring \<Rightarrow> jsval \<Rightarrow> thrown + bool" where
  "js_in key (JObj kvs) = Inr (key \<in> set (own_keys (JObj kvs)))"
| "js_in key (JArr xs) = Inr (key \<in> set (own_keys (JArr xs)))"
| "js_in key v =
     Inl (TypeError (ascii ''Cannot use the in operator on a value that is not an object''))"

text \<open>\<open>object.key\<close> on a data value known to be an object: \<open>undefined\<close> when absent.\<close>

fun get_prop :: "jsval \<Rightarrow> jsstring \<Rightarrow> jsval" where
  "get_prop (JObj kvs) key = (case map_of kvs key of Some v \<Rightarrow> v | None \<Rightarrow> JUndefined)"
| "get_prop _ key = JUndefined"

text \<open>\<open>a && b\<close> on boolean operands, where evaluating either may throw.\<close>

definition and_also :: "thrown + bool \<Rightarrow> thrown + bool \<Rightarrow> thrown + bool" where
  "and_also a b = (case a of Inl e \<Rightarrow> Inl e | Inr x \<Rightarrow> if x then b else Inr False)"

section \<open>Percent-encoding\<close>

text \<open>
  Both encoders of the platform that the client calls work on the UTF-8 octets of the
  string's code points and print an octet as \<open>%XX\<close> with upper-case digits.
\<close>

definition is_high_surrogate :: "code_unit \<Rightarrow> bool" where
  "is_high_surrogate u = (0xD800 \<le> u \<and> u \<le> 0xDBFF)"

definition is_low_surrogate :: "code_unit \<Rightarrow> bool" where
  "is_low_surrogate u = (0xDC00 \<le> u \<and> u \<le> 0xDFFF)"

definition pair_code_point :: "code_unit \<Rightarrow> code_unit \<Rightarrow> nat" where
  "pair_code_point hi lo = (unat hi - 0xD800) * 0x400 + (unat lo - 0xDC00) + 0x10000"

definition utf8 :: "nat \<Rightarrow> 8 word list" where
  "utf8 cp =
     (if cp < 0x80 then [of_nat cp]
      else if cp < 0x800 then [of_nat (0xC0 + cp div 0x40), of_nat (0x80 + cp mod 0x40)]
      else if cp < 0x10000 then
        [of_nat (0xE0 + cp div 0x1000), of_nat (0x80 + cp div 0x40 mod 0x40),
         of_nat (0x80 + cp mod 0x40)]
      else
        [of_nat (0xF0 + cp div 0x40000), of_nat (0x80 + cp div 0x1000 mod 0x40),
         of_nat (0x80 + cp div 0x40 mod 0x40), of_nat (0x80 + cp mod 0x40)])"

definition hex_digit :: "nat \<Rightarrow> code_unit" where
  "hex_digit d = (if d < 10 then of_nat (48 + d) else of_nat (55 + d))"

definition percent_octet :: "8 word \<Rightarrow> jsstring" where
  "percent_octet b = [0x25, hex_digit (unat b div 16), hex_digit (unat b mod 16)]"

definition is_alnum :: "nat \<Rightarrow> bool" where
  "is_alnum n = ((0x30 \<le> n \<and> n \<le> 0x39) \<or> (0x41 \<le> n \<and> n \<le> 0x5A) \<or> (0x61 \<le> n \<and> n \<le> 0x7A))"

text \<open>
  \<open>uriUnescaped\<close> of ECMAScript: letters, digits and the marks
  \<open>- _ . ! ~ * ' ( )\<close>.
\<close>

definition uri_unescaped :: "code_unit \<Rightarrow> bool" where
  "uri_unescaped u =
     (is_alnum (unat u) \<or>
      unat u \<in> {0x2D, 0x5F, 0x2E, 0x21, 0x7E, 0x2A, 0x27, 0x28, 0x29})"

definition URIError :: thrown where
  "URIError = JsError (ascii ''URIError'') (ascii ''URI malformed'')"

definition prepend :: "jsstring \<Rightarrow> thrown + jsstring \<Rightarrow> thrown + jsstring" where
  "prepend p r = (case r of Inl e \<Rightarrow> Inl e | Inr s \<Rightarrow> Inr (p @ s))"

text \<open>
  \<open>encodeURIComponent\<close> (ECMAScript \<open>Encode\<close> with an empty extra set): an unescaped
  code unit is copied, any other code point is read (a surrogate pair is one code point),
  and a surrogate without its partner throws \<open>URIError\<close>.
\<close>

fun encodeURIComponent :: "jsstring \<Rightarrow> thrown + jsstring" where
  "encodeURIComponent [] = Inr []"
| "encodeURIComponent (c # cs) =
     (if uri_unescaped c then prepend [c] (encodeURIComponent cs)
      else if is_low_surrogate c then Inl URIError
      else if is_high_surrogate c then
        (case cs of
           [] \<Rightarrow> Inl URIError
         | d # ds \<Rightarrow>
             if is_low_surrogate d
             then prepend (concat (map percent_octet (utf8 (pair_code_point c d))))
                    (encodeURIComponent ds)
             else Inl URIError)
      else prepend (concat (map percent_octet (utf8 (unat c)))) (encodeURIComponent cs))"

text \<open>
  The conversion to a \<open>USVString\<close> that \<open>URLSearchParams.append\<close> applies to its
  arguments: the code points of the string, a lone surrogate replaced by U+FFFD.
\<close>

fun scalar_values :: "jsstring \<Rightarrow> nat list" where
  "scalar_values [] = []"
| "scalar_values (c # cs) =
     (if is_high_surrogate c then
        (case cs of
           [] \<Rightarrow> [0xFFFD]
         | d # ds \<Rightarrow>
             if is_low_surrogate d then pair_code_point c d # scalar_values ds
             else 0xFFFD # scalar_values cs)
      else if is_low_surrogate c then 0xFFFD # scalar_values cs
      else unat c # scalar_values cs)"

text \<open>
  The \<open>application/x-www-form-urlencoded\<close> byte serializer: letters, digits and
  \<open>* - . _\<close> stay, a space becomes \<open>+\<close>, every other octet is percent-encoded.
\<close>

definition form_octet :: "8 word \<Rightarrow> jsstring" where
  "form_octet b =
     (if b = 0x20 then [0x2B]
      else if is_alnum (unat b) \<or> unat b \<in> {0x2A, 0x2D, 0x2E, 0x5F} then [of_nat (unat b)]
      else percent_octet b)"

definition form_urlencode :: "jsstring \<Rightarrow> jsstring" where
  "form_urlencode s = concat (map form_octet (concat (map utf8 (scalar_values s))))"

fun join_amp :: "jsstring list \<Rightarrow> jsstring" where
  "join_amp [] = []"
| "join_amp [p] = p"
| "join_amp (p # q # ps) = p @ 0x26 # join_amp (q # ps)"

text \<open>
  A \<open>URLSearchParams\<close> object is its list of name-value pairs: \<open>append\<close> adds a pair
  at the end and \<open>toString\<close> serializes the list.
\<close>

type_synonym url_search_params = "(jsstring \<times> jsstring) list"

definition params_append :: "url_search_params \<Rightarrow> jsstring \<Rightarrow> jsstring \<Rightarrow> url_search_params" where
  "params_append params name val = params @ [(name, val)]"

definition params_toString :: "url_search_params \<Rightarrow> jsstring" where
  "params_toString params =
     join_amp (map (\<lambda>(name, val). form_urlencode name @ 0x3D # form_urlencode val) params)"

section \<open>The structural classifiers\<close>

definition isApiError :: "jsval \<Rightarrow> thrown + bool" where
  "isApiError response =
     and_also (Inr (typeof response = T_object))
       (and_also (Inr (response \<noteq> JNull))
         (and_also (js_in (ascii ''error'') response)
           (and_also (js_in (ascii ''message'') response)
             (js_in (ascii ''status'') response))))"

definition isTokenTransfersResponse :: "jsval \<Rightarrow> thrown + bool" where
  "isTokenTransfersResponse item = js_in (ascii ''transfers'') item"

definition isTokenBalanceResponse :: "jsval \<Rightarrow> thrown + bool" where
  "isTokenBalanceResponse item = js_in (ascii ''tokenBalance'') item"

section \<open>The error classes\<close>

text \<open>
  \<open>new Error(message)\<close> stores \<open>ToString(message)\<close>, and nothing when the argument
  is \<open>undefined\<close> (the inherited empty message shows).  The conversion can throw.
\<close>

definition Error_message :: "jsval \<Rightarrow> thrown + jsstring" where
  "Error_message m = (if m = JUndefined then Inr [] else js_to_string m)"

text \<open>
  \<open>new WdkIndexerApiError(apiError)\<close>: \<open>Inr\<close> the new error, \<open>Inl\<close> what the
  constructor threw.
\<close>

definition new_WdkIndexerApiError :: "jsval \<Rightarrow> thrown + thrown" where
  "new_WdkIndexerApiError apiError =
     (case Error_message (get_prop apiError (ascii ''message'')) of
        Inl e \<Rightarrow> Inl e
      | Inr m \<Rightarrow>
          Inr (WdkIndexerApiError m (get_prop apiError (ascii ''status''))
                 (get_prop apiError (ascii ''error''))))"

definition new_WdkIndexerTimeoutError :: "int \<Rightarrow> thrown" where
  "new_WdkIndexerTimeoutError timeout =
     WdkIndexerTimeoutError
       (ascii ''Request timed out after '' @ number_to_string timeout @ ascii ''ms'')"

text \<open>What \<open>throw new WdkIndexerApiError(x)\<close> throws.\<close>

definition throw_new_WdkIndexerApiError :: "jsval \<Rightarrow> thrown" where
  "throw_new_WdkIndexerApiError apiError =
     (case new_WdkIndexerApiError apiError of Inl e \<Rightarrow> e | Inr err \<Rightarrow> err)"

section \<open>The client\<close>

definition BLOCKCHAINS :: "jsstring list" where
  "BLOCKCHAINS =
     map ascii [''ethereum'', ''sepolia'', ''plasma'', ''arbitrum'', ''polygon'', ''tron'',
       ''ton'', ''bitcoin'', ''spark'']"

definition TOKENS :: "jsstring list" where
  "TOKENS = map ascii [''usdt'', ''xaut'', ''btc'']"

datatype http_method = GET | POST

text \<open>
  What the transport is called with.  \<open>body\<close> holds the value that
  \<open>JSON.stringify\<close> turns into the payload (its text is not modelled), \<open>None\<close> when
  no body is sent.  The abort signal is part of every call; what becomes of it is in
  \<open>transport_run\<close>.
\<close>

record http_request =
  url :: jsstring
  request_method :: http_method
  headers :: "(jsstring \<times> jsstring) list"
  body :: "jsval option"

text \<open>
  The part of a \<open>Response\<close> the client reads; \<open>json\<close> is how the promise of
  \<open>response.json()\<close> settles (\<open>Inl\<close> a rejection, such as the \<open>SyntaxError\<close> of a
  body that is not JSON).
\<close>

record fetch_response =
  ok :: bool
  status :: int
  statusText :: jsstring
  json :: "thrown + jsval"

text \<open>
  One call of the transport, seen against the timer that \<open>_request\<close> starts with
  \<open>setTimeout\<close>: either the call settles before the timer fires (\<open>Inl\<close> a rejection or
  a synchronous throw), or the timer fires while the call is pending and
  \<open>controller.abort()\<close> runs; the argument of \<open>TimerFirst\<close> is how the call settles
  after that, \<open>None\<close> when it never does.  Reading the body takes no time in this
  model.
\<close>

datatype transport_run =
    SettlesFirst "thrown + fetch_response"
  | TimerFirst "(thrown + fetch_response) option"

type_synonym transport = "http_request \<Rightarrow> transport_run"

record WdkIndexerConfig =
  config_apiKey :: "jsstring option"
  config_baseUrl :: "jsstring option"
  config_timeout :: "int option"
  config_fetch :: "transport option"

record WdkIndexerClient =
  apiKey :: jsstring
  baseUrl :: jsstring
  timeout :: int
  fetchFn :: transport

text \<open>\<open>s.replace(/\/$/, '')\<close>.\<close>

definition strip_trailing_slash :: "jsstring \<Rightarrow> jsstring" where
  "strip_trailing_slash s = (if s \<noteq> [] \<and> last s = 0x2F then butlast s else s)"

text \<open>
  The constructor; \<open>global_fetch\<close> is \<open>globalThis.fetch\<close>.  An absent field of the
  configuration is \<open>None\<close>; \<open>x || d\<close> also takes \<open>d\<close> for the empty string and
  for \<open>0\<close>.
\<close>

definition new_WdkIndexerClient ::
  "transport option \<Rightarrow> WdkIndexerConfig \<Rightarrow> thrown + WdkIndexerClient" where
  "new_WdkIndexerClient global_fetch config =
     (case config_apiKey config of
        None \<Rightarrow> Inl (WdkIndexerError (ascii ''API key is required''))
      | Some key \<Rightarrow>
          if key = [] then Inl (WdkIndexerError (ascii ''API key is required''))
          else
            (case (case config_fetch config of Some f \<Rightarrow> Some f | None \<Rightarrow> global_fetch) of
               None \<Rightarrow>
                 Inl (WdkIndexerError
                   (ascii ''fetch is not available. Please provide a custom fetch implementation or use Node.js 18+.''))
             | Some f \<Rightarrow>
                 Inr \<lparr> apiKey = key,
                       baseUrl =
                         strip_trailing_slash
                           (case config_baseUrl config of
                              None \<Rightarrow> ascii ''https://wdk-api.tether.io''
                            | Some b \<Rightarrow>
                                if b = [] then ascii ''https://wdk-api.tether.io'' else b),
                       timeout =
                         (case config_timeout config of
                            None \<Rightarrow> 30000
                          | Some t \<Rightarrow> if t = 0 then 30000 else t),
                       fetchFn = f \<rparr>))"

definition createClient ::
  "transport option \<Rightarrow> WdkIndexerConfig \<Rightarrow> thrown + WdkIndexerClient" where
  "createClient global_fetch config = new_WdkIndexerClient global_fetch config"

subsection \<open>The request executor\<close>

text \<open>
  A value of the query mapping (\<open>string | number | undefined\<close>), and the mapping as
  \<open>Object.entries\<close> lists it.  The loop only tests a value against \<open>undefined\<close>
  and takes \<open>String(value)\<close>, so a number that is no safe integer behaves as the
  string that \<open>String\<close> prints for it.
\<close>

datatype query_value = QUndefined | QString jsstring | QNumber int

fun String :: "query_value \<Rightarrow> jsstring" where
  "String QUndefined = ascii ''undefined''"
| "String (QString s) = s"
| "String (QNumber n) = number_to_string n"

record request_options =
  query :: "(jsstring \<times> query_value) list option"
  options_body :: jsval

text \<open>The \<open>for\<close> loop over the entries, with the \<open>URLSearchParams\<close> as its state.\<close>

fun append_entries ::
  "(jsstring \<times> query_value) list \<Rightarrow> url_search_params \<Rightarrow> url_search_params" where
  "append_entries [] params = params"
| "append_entries ((key, val) # entries) params =
     append_entries entries
       (if val \<noteq> QUndefined then params_append params key (String val) else params)"

text \<open>Lines 172 to 186 of \<open>_request\<close>: the URL.\<close>

definition request_url ::
  "WdkIndexerClient \<Rightarrow> jsstring \<Rightarrow> request_options option \<Rightarrow> jsstring" where
  "request_url c path options =
     (let url = baseUrl c @ path in
      case (case options of None \<Rightarrow> None | Some opts \<Rightarrow> query opts) of
        None \<Rightarrow> url
      | Some entries \<Rightarrow>
          (let queryString = params_toString (append_entries entries []) in
           if queryString \<noteq> [] then url @ 0x3F # queryString else url))"

text \<open>Truthiness of a data value.\<close>

fun truthy :: "jsval \<Rightarrow> bool" where
  "truthy JUndefined = False"
| "truthy JNull = False"
| "truthy (JBool b) = b"
| "truthy (JNum i) = (i \<noteq> 0)"
| "truthy (JStr s) = (s \<noteq> [])"
| "truthy (JArr _) = True"
| "truthy (JObj _) = True"

definition build_request ::
  "WdkIndexerClient \<Rightarrow> http_method \<Rightarrow> jsstring \<Rightarrow> request_options option \<Rightarrow> http_request" where
  "build_request c m path options =
     \<lparr> url = request_url c path options,
       request_method = m,
       headers =
         [(ascii ''x-api-key'', apiKey c), (ascii ''Content-Type'', ascii ''application/json'')],
       body =
         (case options of
            None \<Rightarrow> None
          | Some opts \<Rightarrow> if truthy (options_body opts) then Some (options_body opts) else None) \<rparr>"

text \<open>
  The \<open>try\<close> block once the transport call has settled: its value, or what it throws.
\<close>

definition try_block :: "thrown + fetch_response \<Rightarrow> thrown + jsval" where
  "try_block settled =
     (case settled of
        Inl e \<Rightarrow> Inl e
      | Inr response \<Rightarrow>
          (case json response of
             Inl e \<Rightarrow> Inl e
           | Inr data \<Rightarrow>
               if \<not> ok response then
                 (case isApiError data of
                    Inl e \<Rightarrow> Inl e
                  | Inr is_api \<Rightarrow>
                      if is_api then Inl (throw_new_WdkIndexerApiError data)
                      else
                        Inl (throw_new_WdkIndexerApiError
                          (JObj
                            [(ascii ''error'', JStr (ascii ''UnknownError'')),
                             (ascii ''message'',
                                JStr (ascii ''HTTP '' @ number_to_string (status response) @
                                  ascii '': '' @ statusText response)),
                             (ascii ''status'', JNum (status response))])))
               else Inr data))"

text \<open>The \<open>catch\<close> clause: what it throws for the \<open>error\<close> it caught.\<close>

definition catch_clause :: "WdkIndexerClient \<Rightarrow> thrown \<Rightarrow> thrown" where
  "catch_clause c error =
     (if instanceof_WdkIndexerError error then error
      else if instanceof_Error error then
        (if error_name error = ascii ''AbortError''
         then new_WdkIndexerTimeoutError (timeout c)
         else WdkIndexerNetworkError (error_message error) (Some error))
      else WdkIndexerNetworkError (ascii ''An unknown error occurred'') None)"

text \<open>
  What the caller of an operation observes: how the returned promise settles (\<open>None\<close>
  when it never does), whether \<open>controller.abort()\<close> ran, whether \<open>clearTimeout\<close>
  ran, and the request the transport was called with, if it was called.
\<close>

record outcome =
  result :: "(thrown + jsval) option"
  aborted :: bool
  timer_cleared :: bool
  sent :: "http_request option"

definition settle :: "WdkIndexerClient \<Rightarrow> thrown + fetch_response \<Rightarrow> thrown + jsval" where
  "settle c settled =
     (case try_block settled of Inl e \<Rightarrow> Inl (catch_clause c e) | Inr data \<Rightarrow> Inr data)"

definition request ::
  "WdkIndexerClient \<Rightarrow> http_method \<Rightarrow> jsstring \<Rightarrow> request_options option \<Rightarrow> outcome" where
  "request c m path options =
     (let req = build_request c m path options in
      case fetchFn c req of
        SettlesFirst settled \<Rightarrow>
          \<lparr> result = Some (settle c settled), aborted = False, timer_cleared = True,
            sent = Some req \<rparr>
      | TimerFirst later \<Rightarrow>
          (case later of
             None \<Rightarrow>
               \<lparr> result = None, aborted = True, timer_cleared = False, sent = Some req \<rparr>
           | Some settled \<Rightarrow>
               \<lparr> result = Some (settle c settled), aborted = True, timer_cleared = True,
                 sent = Some req \<rparr>))"

subsection \<open>The public operations\<close>

text \<open>An operation that throws before it reaches the executor.\<close>

definition rejected :: "thrown \<Rightarrow> outcome" where
  "rejected e = \<lparr> result = Some (Inl e), aborted = False, timer_cleared = False, sent = None \<rparr>"

definition health :: "WdkIndexerClient \<Rightarrow> outcome" where
  "health c = request c GET (ascii ''/api/v1/health'') None"

record transfers_options =
  limit :: "int option"
  fromTs :: "int option"
  toTs :: "int option"

text \<open>\<open>options?.field\<close> as a query value.\<close>

definition optional_number ::
  "transfers_options option \<Rightarrow> (transfers_options \<Rightarrow> int option) \<Rightarrow> query_value" where
  "optional_number options field =
     (case options of
        None \<Rightarrow> QUndefined
      | Some opts \<Rightarrow> (case field opts of None \<Rightarrow> QUndefined | Some n \<Rightarrow> QNumber n))"

definition getTokenTransfers ::
  "WdkIndexerClient \<Rightarrow> jsstring \<Rightarrow> jsstring \<Rightarrow> jsstring \<Rightarrow> transfers_options option \<Rightarrow> outcome" where
  "getTokenTransfers c blockchain token address options =
     (case encodeURIComponent address of
        Inl e \<Rightarrow> rejected e
      | Inr encoded \<Rightarrow>
          request c GET
            (ascii ''/api/v1/'' @ blockchain @ ascii ''/'' @ token @ ascii ''/'' @ encoded @
               ascii ''/token-transfers'')
            (Some \<lparr> query =
                      Some [(ascii ''limit'', optional_number options limit),
                            (ascii ''fromTs'', optional_number options fromTs),
                            (ascii ''toTs'', optional_number options toTs)],
                    options_body = JUndefined \<rparr>))"

definition getBatchTokenTransfers :: "WdkIndexerClient \<Rightarrow> jsval \<Rightarrow> outcome" where
  "getBatchTokenTransfers c requests =
     request c POST (ascii ''/api/v1/batch/token-transfers'')
       (Some \<lparr> query = None, options_body = requests \<rparr>)"

definition getTokenBalance ::
  "WdkIndexerClient \<Rightarrow> jsstring \<Rightarrow> jsstring \<Rightarrow> jsstring \<Rightarrow> outcome" where
  "getTokenBalance c blockchain token address =
     (case encodeURIComponent address of
        Inl e \<Rightarrow> rejected e
      | Inr encoded \<Rightarrow>
          request c GET
            (ascii ''/api/v1/'' @ blockchain @ ascii ''/'' @ token @ ascii ''/'' @ encoded @
               ascii ''/token-balances'')
            None)"

definition getBatchTokenBalances :: "WdkIndexerClient \<Rightarrow> jsval \<Rightarrow> outcome" where
  "getBatchTokenBalances c requests =
     request c POST (ascii ''/api/v1/batch/token-balances'')
       (Some \<lparr> query = None, options_body = requests \<rparr>)"

section \<open>The documented response shapes\<close>

text \<open>
  The wording of the specification for a value that is an API error payload: a non-null
  object that contains the three keys.  Arrays are objects.
\<close>

definition is_non_null_object :: "jsval \<Rightarrow> bool" where
  "is_non_null_object v = (case v of JArr _ \<Rightarrow> True | JObj _ \<Rightarrow> True | _ \<Rightarrow> False)"

definition contains_key :: "jsval \<Rightarrow> jsstring \<Rightarrow> bool" where
  "contains_key v key = (key \<in> set (own_keys v))"

text \<open>
  The three documented shapes: \<open>{transfers: []}\<close>, \<open>{tokenBalance: b}\<close> and
  \<open>{error: e, message: m, status: s}\<close>.
\<close>

definition transfers_shape :: jsval where
  "transfers_shape = JObj [(ascii ''transfers'', JArr [])]"

definition balance_shape :: "jsval \<Rightarrow> jsval" where
  "balance_shape b = JObj [(ascii ''tokenBalance'', b)]"

definition error_shape :: "jsval \<Rightarrow> jsval \<Rightarrow> jsval \<Rightarrow> jsval" where
  "error_shape e m s =
     JObj [(ascii ''error'', e), (ascii ''message'', m), (ascii ''status'', s)]"

section \<open>Error kinds of the specification\<close>

text \<open>
  The specification's \<open>ConfigurationError\<close>.  The source has no class of that name: its
  constructor throws the base class \<open>WdkIndexerError\<close> itself, an instance of none of
  the three subclasses.
\<close>

definition ConfigurationError :: "thrown \<Rightarrow> bool" where
  "ConfigurationError e = (case e of WdkIndexerError _ \<Rightarrow> True | _ \<Rightarrow> False)"

text \<open>A cancellation as the \<open>catch\<close> clause recognises it: an \<open>Error\<close> named \<open>AbortError\<close>.\<close>

definition is_abort :: "thrown \<Rightarrow> bool" where
  "is_abort e = (instanceof_Error e \<and> error_name e = ascii ''AbortError'')"

section \<open>Inputs of the test suite\<close>

text \<open>
  The client and the transport stubs of \<open>tests/client.test.js\<close>, and a few more in
  their style.
\<close>

definition test_client :: "transport \<Rightarrow> WdkIndexerClient" where
  "test_client f =
     \<lparr> apiKey = ascii ''test-key'', baseUrl = ascii ''https://wdk-api.tether.io'',
       timeout = 100, fetchFn = f \<rparr>"

definition never_settles :: transport where
  "never_settles = (\<lambda>req. TimerFirst None)"

definition aborts_on_signal :: transport where
  "aborts_on_signal =
     (\<lambda>req. TimerFirst (Some (Inl (JsError (ascii ''AbortError'')
        (ascii ''This operation was aborted'')))))"

definition refuses_connection :: transport where
  "refuses_connection =
     (\<lambda>req. SettlesFirst (Inl (JsError (ascii ''Error'') (ascii ''Connection refused''))))"

definition responds :: "fetch_response \<Rightarrow> transport" where
  "responds response = (\<lambda>req. SettlesFirst (Inr response))"

definition rejects_with :: "thrown \<Rightarrow> transport" where
  "rejects_with e = (\<lambda>req. SettlesFirst (Inl e))"

text \<open>A gateway's answer: status 502 with an HTML page as its body.\<close>

definition bad_gateway :: fetch_response where
  "bad_gateway =
     \<lparr> ok = False, status = 502, statusText = ascii ''Bad Gateway'',
       json = Inl (JsError (ascii ''SyntaxError'')
                (ascii ''Unexpected token < in JSON at position 0'')) \<rparr>"

definition ok_response :: "jsval \<Rightarrow> fetch_response" where
  "ok_response data = \<lparr> ok = True, status = 200, statusText = ascii ''OK'', json = Inr data \<rparr>"

definition sample_request :: "jsstring \<Rightarrow> jsstring \<Rightarrow> jsval" where
  "sample_request blockchain address =
     JObj [(ascii ''blockchain'', JStr blockchain), (ascii ''token'', JStr (ascii ''usdt'')),
           (ascii ''address'', JStr address)]"

section \<open>Wording of the specification for URLs\<close>

text \<open>
  A string is well-formed UTF-16 when every surrogate is half of a pair.
\<close>

fun well_formed :: "jsstring \<Rightarrow> bool" where
  "well_formed [] = True"
| "well_formed (c # cs) =
     (if is_high_surrogate c then
        (case cs of [] \<Rightarrow> False | d # ds \<Rightarrow> is_low_surrogate d \<and> well_formed ds)
      else \<not> is_low_surrogate c \<and> well_formed cs)"

text \<open>
  The code units that cannot change the structure of a path: the unescaped ones and the
  percent sign.  The delimiters \<open>/\<close>, \<open>?\<close> and \<open>#\<close> are not among them.
\<close>

definition path_safe :: "code_unit \<Rightarrow> bool" where
  "path_safe u = (uri_unescaped u \<or> u = 0x25)"

text \<open>
  The query string in the words of the specification: exactly the entries whose value is
  not \<open>undefined\<close>, every value stringified, and no \<open>?\<close> when no entry remains.
\<close>

definition included_entries :: "(jsstring \<times> query_value) list \<Rightarrow> url_search_params" where
  "included_entries entries =
     map (\<lambda>(key, val). (key, String val)) (filter (\<lambda>(key, val). val \<noteq> QUndefined) entries)"

text \<open>
  The query string of a list of pairs, written without the serializer of the code: every
  pair gives \<open>&name=value\<close>, name and value form-encoded, and the first \<open>&\<close> is
  dropped.
\<close>

definition spec_query_string :: "url_search_params \<Rightarrow> jsstring" where
  "spec_query_string pairs =
     tl (concat (map (\<lambda>(name, val). 0x26 # form_urlencode name @ 0x3D # form_urlencode val)
           pairs))"

definition spec_url :: "WdkIndexerClient \<Rightarrow> jsstring \<Rightarrow> (jsstring \<times> query_value) list \<Rightarrow> jsstring" where
  "spec_url c path entries =
     (if included_entries entries = [] then baseUrl c @ path
      else baseUrl c @ path @ 0x3F # spec_query_string (included_entries entries))"

text \<open>The code units that the form serializer copies.\<close>

definition form_plain :: "code_unit \<Rightarrow> bool" where
  "form_plain u = (is_alnum (unat u) \<or> unat u \<in> {0x2A, 0x2D, 0x2E, 0x5F})"

section \<open>Properties of the classifiers\<close>

lemma isApiError_iff:
  "isApiError v =
     Inr (is_non_null_object v \<and> contains_key v (ascii ''error'') \<and>
          contains_key v (ascii ''message'') \<and> contains_key v (ascii ''status''))"
  by (cases v)
    (simp_all add: isApiError_def and_also_def is_non_null_object_def contains_key_def)

lemma key_names_distinct:
  "distinct [ascii ''error'', ascii ''message'', ascii ''status'', ascii ''transfers'',
     ascii ''tokenBalance'']"
  by (simp add: ascii_def)

text \<open>
  Claim C6.  Each of the three classifiers answers true on exactly one of the three
  documented shapes \<open>{transfers: []}\<close>, \<open>{tokenBalance: {...}}\<close>,
  \<open>{error, message, status}\<close> and false on the other two; and \<open>isApiError(v)\<close> is
  true exactly when \<open>v\<close> is a non-null object that contains the keys \<open>error\<close>,
  \<open>message\<close> and \<open>status\<close>.
\<close>

theorem classifiers_exclusive_and_exhaustive:
  "isApiError (error_shape e m s) = Inr True \<and>
   isTokenTransfersResponse (error_shape e m s) = Inr False \<and>
   isTokenBalanceResponse (error_shape e m s) = Inr False \<and>
   isApiError transfers_shape = Inr False \<and>
   isTokenTransfersResponse transfers_shape = Inr True \<and>
   isTokenBalanceResponse transfers_shape = Inr False \<and>
   isApiError (balance_shape b) = Inr False \<and>
   isTokenTransfersResponse (balance_shape b) = Inr False \<and>
   isTokenBalanceResponse (balance_shape b) = Inr True \<and>
   isApiError v =
     Inr (is_non_null_object v \<and> contains_key v (ascii ''error'') \<and>
          contains_key v (ascii ''message'') \<and> contains_key v (ascii ''status''))"
  using key_names_distinct
  by (simp add: isApiError_iff is_non_null_object_def contains_key_def error_shape_def
      transfers_shape_def balance_shape_def isTokenTransfersResponse_def
      isTokenBalanceResponse_def eq_commute)

text \<open>
  Claim C10.  Of the three classifiers only \<open>isApiError\<close> is total: it returns a
  boolean on every value and false on \<open>null\<close>, \<open>undefined\<close> and every other
  non-object, whereas \<open>isTokenTransfersResponse\<close> and \<open>isTokenBalanceResponse\<close>
  throw a \<open>TypeError\<close> on each of these values, since they apply \<open>in\<close> without
  checking that the argument is an object.
\<close>

theorem only_isApiError_is_total:
  "(\<exists>b. isApiError v = Inr b) \<and>
   (\<not> is_non_null_object v \<longrightarrow>
      isApiError v = Inr False \<and>
      (\<exists>m. isTokenTransfersResponse v = Inl (TypeError m)) \<and>
      (\<exists>m. isTokenBalanceResponse v = Inl (TypeError m)))"
  by (cases v)
    (auto simp add: isApiError_iff is_non_null_object_def isTokenTransfersResponse_def
      isTokenBalanceResponse_def)

theorem only_isApiError_is_total_witness:
  "\<not> is_non_null_object JNull \<and> isApiError JNull = Inr False \<and>
   (\<exists>m. isTokenTransfersResponse JNull = Inl (TypeError m)) \<and>
   (\<exists>m. isTokenBalanceResponse JNull = Inl (TypeError m)) \<and>
   \<not> is_non_null_object JUndefined \<and> isApiError JUndefined = Inr False \<and>
   (\<exists>m. isTokenTransfersResponse JUndefined = Inl (TypeError m))"
  using only_isApiError_is_total [of JNull] only_isApiError_is_total [of JUndefined]
  by (simp add: is_non_null_object_def)

section \<open>Properties of the constructor\<close>

text \<open>
  Claim C7.  Whenever the API key of the configuration is absent or empty, whatever the
  other fields, the constructor fails with the error kind that only construction raises
  (the base class, no \<open>WdkIndexerApiError\<close>, \<open>WdkIndexerTimeoutError\<close> or
  \<open>WdkIndexerNetworkError\<close>); so it does when neither the configuration nor the
  platform provides a transport.
\<close>

theorem construction_requires_apiKey_and_transport:
  "(config_apiKey config = None \<or> config_apiKey config = Some [] \<longrightarrow>
      new_WdkIndexerClient global_fetch config =
        Inl (WdkIndexerError (ascii ''API key is required''))) \<and>
   (config_fetch config = None \<and> global_fetch = None \<longrightarrow>
      (\<exists>e. new_WdkIndexerClient global_fetch config = Inl e \<and> ConfigurationError e)) \<and>
   ConfigurationError (WdkIndexerError msg) \<and>
   \<not> ConfigurationError (WdkIndexerApiError msg st ty) \<and>
   \<not> ConfigurationError (WdkIndexerTimeoutError msg) \<and>
   \<not> ConfigurationError (WdkIndexerNetworkError msg cause) \<and>
   createClient global_fetch config = new_WdkIndexerClient global_fetch config"
  by (auto simp add: new_WdkIndexerClient_def ConfigurationError_def createClient_def
      split: option.splits)

theorem construction_requires_apiKey_and_transport_witness:
  "new_WdkIndexerClient (Some never_settles)
     \<lparr> config_apiKey = Some [], config_baseUrl = Some (ascii ''https://custom.example.com/''),
       config_timeout = Some 60000, config_fetch = Some never_settles \<rparr> =
     Inl (WdkIndexerError (ascii ''API key is required'')) \<and>
   new_WdkIndexerClient (Some never_settles)
     \<lparr> config_apiKey = None, config_baseUrl = None, config_timeout = None,
       config_fetch = None \<rparr> =
     Inl (WdkIndexerError (ascii ''API key is required'')) \<and>
   (\<exists>e. new_WdkIndexerClient None
      \<lparr> config_apiKey = Some (ascii ''test-key''), config_baseUrl = None,
        config_timeout = None, config_fetch = None \<rparr> = Inl e \<and> ConfigurationError e)"
  using
    construction_requires_apiKey_and_transport
      [of "\<lparr> config_apiKey = Some [],
              config_baseUrl = Some (ascii ''https://custom.example.com/''),
              config_timeout = Some 60000, config_fetch = Some never_settles \<rparr>"
          "Some never_settles"]
    construction_requires_apiKey_and_transport
      [of "\<lparr> config_apiKey = None, config_baseUrl = None, config_timeout = None,
              config_fetch = None \<rparr>"
          "Some never_settles"]
    construction_requires_apiKey_and_transport
      [of "\<lparr> config_apiKey = Some (ascii ''test-key''), config_baseUrl = None,
              config_timeout = None, config_fetch = None \<rparr>"
          None]
  by simp

section \<open>Properties of the request executor\<close>

lemmas literal_defs = ascii_def number_to_string_def is_safe_integer_def nat_digits.simps
  digit_unit_def

lemma catch_clause_typed: "instanceof_WdkIndexerError (catch_clause c e)"
  by (cases e) (simp_all add: catch_clause_def new_WdkIndexerTimeoutError_def)

lemma settle_typed: "settle c s = Inl e \<Longrightarrow> instanceof_WdkIndexerError e"
  by (auto simp add: settle_def catch_clause_typed split: sum.splits)

lemma request_failures_typed:
  "result (request c m path options) = Some (Inl e) \<Longrightarrow> instanceof_WdkIndexerError e"
  by (auto simp add: request_def Let_def settle_typed split: transport_run.splits option.splits)

lemma sent_request: "sent (request c m path options) = Some (build_request c m path options)"
  by (simp add: request_def Let_def split: transport_run.splits option.splits)

lemma request_settled:
  assumes "sent (request c m path options) = Some req"
    and "fetchFn c req = SettlesFirst s \<or> fetchFn c req = TimerFirst (Some s)"
  shows "result (request c m path options) = Some (settle c s)"
proof -
  from assms(1) have "req = build_request c m path options"
    by (simp add: sent_request)
  with assms(2) show ?thesis
    by (auto simp add: request_def Let_def)
qed

lemma settle_rejection: "settle c (Inl e) = Inl (catch_clause c e)"
  by (simp add: settle_def try_block_def)

text \<open>
  Claim C4, as the code has it.  When the transport call fails with an \<open>Error\<close> that
  is neither an abort (an \<open>Error\<close> named \<open>AbortError\<close>) nor one of the client's typed
  errors, the operation fails with a \<open>WdkIndexerNetworkError\<close> whose message is the
  failure's message and whose cause is the failure.  A failure that is no \<open>Error\<close>
  instance gives a \<open>WdkIndexerNetworkError\<close> with the fixed message
  \<open>An unknown error occurred\<close> and no cause.  An abort takes the timeout branch, and
  a typed client error is raised again as it is.
\<close>

theorem transport_failure_mapping:
  assumes "sent (request c m path options) = Some req"
    and "fetchFn c req = SettlesFirst (Inl e) \<or> fetchFn c req = TimerFirst (Some (Inl e))"
  shows "(instanceof_WdkIndexerError e \<longrightarrow>
            result (request c m path options) = Some (Inl e)) \<and>
         (\<not> instanceof_WdkIndexerError e \<and> is_abort e \<longrightarrow>
            result (request c m path options) =
              Some (Inl (new_WdkIndexerTimeoutError (timeout c)))) \<and>
         (\<not> instanceof_WdkIndexerError e \<and> instanceof_Error e \<and> \<not> is_abort e \<longrightarrow>
            result (request c m path options) =
              Some (Inl (WdkIndexerNetworkError (error_message e) (Some e)))) \<and>
         (\<not> instanceof_Error e \<longrightarrow>
            result (request c m path options) =
              Some (Inl (WdkIndexerNetworkError (ascii ''An unknown error occurred'') None)))"
  using request_settled [OF assms]
  by (cases e) (simp_all add: settle_rejection catch_clause_def is_abort_def)

theorem transport_failure_mapping_witness:
  "sent (health (test_client refuses_connection)) =
     Some (build_request (test_client refuses_connection) GET (ascii ''/api/v1/health'') None) \<and>
   result (health (test_client refuses_connection)) =
     Some (Inl (WdkIndexerNetworkError (ascii ''Connection refused'')
       (Some (JsError (ascii ''Error'') (ascii ''Connection refused''))))) \<and>
   result (health (test_client (rejects_with (JsError (ascii ''AbortError'') (ascii ''Aborted''))))) =
     Some (Inl (WdkIndexerTimeoutError (ascii ''Request timed out after 100ms''))) \<and>
   result (health (test_client (rejects_with (WdkIndexerError (ascii ''stop''))))) =
     Some (Inl (WdkIndexerError (ascii ''stop''))) \<and>
   result (health (test_client (rejects_with (NonError (JStr (ascii ''boom'')))))) =
     Some (Inl (WdkIndexerNetworkError (ascii ''An unknown error occurred'') None))"
  using
    transport_failure_mapping
      [of "test_client refuses_connection" GET "ascii ''/api/v1/health''" None
          "build_request (test_client refuses_connection) GET (ascii ''/api/v1/health'') None"
          "JsError (ascii ''Error'') (ascii ''Connection refused'')"]
    transport_failure_mapping
      [of "test_client (rejects_with (JsError (ascii ''AbortError'') (ascii ''Aborted'')))" GET
          "ascii ''/api/v1/health''" None
          "build_request (test_client (rejects_with (JsError (ascii ''AbortError'') (ascii ''Aborted''))))
             GET (ascii ''/api/v1/health'') None"
          "JsError (ascii ''AbortError'') (ascii ''Aborted'')"]
    transport_failure_mapping
      [of "test_client (rejects_with (WdkIndexerError (ascii ''stop'')))" GET
          "ascii ''/api/v1/health''" None
          "build_request (test_client (rejects_with (WdkIndexerError (ascii ''stop''))))
             GET (ascii ''/api/v1/health'') None"
          "WdkIndexerError (ascii ''stop'')"]
    transport_failure_mapping
      [of "test_client (rejects_with (NonError (JStr (ascii ''boom''))))" GET
          "ascii ''/api/v1/health''" None
          "build_request (test_client (rejects_with (NonError (JStr (ascii ''boom'')))))
             GET (ascii ''/api/v1/health'') None"
          "NonError (JStr (ascii ''boom''))"]
  by (simp add: sent_request health_def test_client_def refuses_connection_def rejects_with_def
      is_abort_def new_WdkIndexerTimeoutError_def literal_defs)

text \<open>
  Claim C4 as stated fails for a rejection that is no \<open>Error\<close> instance: the stub
  rejects with the plain object \<open>{message: "Connection refused"}\<close>, neither an abort
  nor a typed error, and the operation's error carries another message and no cause.
\<close>

theorem non_Error_rejection_loses_message_and_cause:
  "\<not> is_abort (NonError (JObj [(ascii ''message'', JStr (ascii ''Connection refused''))])) \<and>
   \<not> instanceof_WdkIndexerError
        (NonError (JObj [(ascii ''message'', JStr (ascii ''Connection refused''))])) \<and>
   result (health (test_client
     (rejects_with (NonError (JObj [(ascii ''message'', JStr (ascii ''Connection refused''))]))))) =
     Some (Inl (WdkIndexerNetworkError (ascii ''An unknown error occurred'') None)) \<and>
   ascii ''An unknown error occurred'' \<noteq> ascii ''Connection refused''"
  by (simp add: health_def test_client_def rejects_with_def is_abort_def request_def
      build_request_def request_url_def settle_def try_block_def catch_clause_def ascii_def)

text \<open>
  Claim C3, as the code has it.  When the timer fires before the transport call
  settles, the abort signal passed to the transport is triggered; if the call then
  rejects with an \<open>Error\<close> named \<open>AbortError\<close>, the operation fails with a
  \<open>WdkIndexerTimeoutError\<close> whose message carries the configured duration.  On
  every path on which the operation completes, \<open>clearTimeout\<close> has run.
\<close>

theorem timer_first_aborts_and_times_out:
  "(sent (request c m path options) = Some req \<and> fetchFn c req = TimerFirst later \<longrightarrow>
      aborted (request c m path options) \<and>
      (\<forall>e. later = Some (Inl e) \<and> is_abort e \<and> \<not> instanceof_WdkIndexerError e \<longrightarrow>
         result (request c m path options) =
           Some (Inl (WdkIndexerTimeoutError
             (ascii ''Request timed out after '' @ number_to_string (timeout c) @ ascii ''ms''))))) \<and>
   (result (request c m path options) \<noteq> None \<longrightarrow> timer_cleared (request c m path options))"
proof (intro conjI impI allI)
  assume a: "sent (request c m path options) = Some req \<and> fetchFn c req = TimerFirst later"
  then have req: "req = build_request c m path options"
    by (simp add: sent_request)
  with a show "aborted (request c m path options)"
    by (auto simp add: request_def Let_def split: option.splits)
  fix e
  assume "later = Some (Inl e) \<and> is_abort e \<and> \<not> instanceof_WdkIndexerError e"
  with a show "result (request c m path options) =
      Some (Inl (WdkIndexerTimeoutError
        (ascii ''Request timed out after '' @ number_to_string (timeout c) @ ascii ''ms'')))"
    using request_settled [of c m path options req "Inl e"]
    by (simp add: settle_rejection catch_clause_def is_abort_def new_WdkIndexerTimeoutError_def)
next
  assume "result (request c m path options) \<noteq> None"
  then show "timer_cleared (request c m path options)"
    by (auto simp add: request_def Let_def split: transport_run.splits option.splits)
qed

theorem timer_first_aborts_and_times_out_witness:
  "sent (health (test_client aborts_on_signal)) =
     Some (build_request (test_client aborts_on_signal) GET (ascii ''/api/v1/health'') None) \<and>
   fetchFn (test_client aborts_on_signal)
     (build_request (test_client aborts_on_signal) GET (ascii ''/api/v1/health'') None) =
     TimerFirst (Some (Inl (JsError (ascii ''AbortError'') (ascii ''This operation was aborted'')))) \<and>
   is_abort (JsError (ascii ''AbortError'') (ascii ''This operation was aborted'')) \<and>
   aborted (health (test_client aborts_on_signal)) \<and>
   result (health (test_client aborts_on_signal)) =
     Some (Inl (WdkIndexerTimeoutError (ascii ''Request timed out after 100ms''))) \<and>
   timer_cleared (health (test_client aborts_on_signal))"
  using
    timer_first_aborts_and_times_out
      [of "test_client aborts_on_signal" GET "ascii ''/api/v1/health''" None
          "build_request (test_client aborts_on_signal) GET (ascii ''/api/v1/health'') None"
          "Some (Inl (JsError (ascii ''AbortError'') (ascii ''This operation was aborted'')))"]
  by (simp add: sent_request health_def test_client_def aborts_on_signal_def is_abort_def
      literal_defs)

text \<open>
  Claim C3 as stated fails for a transport that ignores the signal: with the stub that
  never settles the timer fires and the signal is triggered, but the operation never
  fails with a timeout error: its promise stays pending and \<open>clearTimeout\<close> is
  never reached.
\<close>

theorem ignored_abort_signal_never_times_out:
  "fetchFn (test_client never_settles)
     (build_request (test_client never_settles) GET (ascii ''/api/v1/health'') None) =
     TimerFirst None \<and>
   aborted (health (test_client never_settles)) \<and>
   result (health (test_client never_settles)) = None \<and>
   \<not> timer_cleared (health (test_client never_settles))"
  by (simp add: health_def test_client_def never_settles_def request_def)

text \<open>
  A response with a non-success status whose body does parse: the operation fails with
  the \<open>WdkIndexerApiError\<close> of the payload when the body is an API error payload, and
  with the one synthesized from the status and the status text otherwise.
\<close>

lemma parsed_error_body_raises_ApiError:
  assumes "sent (request c m path options) = Some req"
    and "fetchFn c req = SettlesFirst (Inr response) \<or>
         fetchFn c req = TimerFirst (Some (Inr response))"
    and "\<not> ok response" and "json response = Inr data"
  shows "(isApiError data = Inr True \<longrightarrow>
            (\<forall>msg. Error_message (get_prop data (ascii ''message'')) = Inr msg \<longrightarrow>
               result (request c m path options) =
                 Some (Inl (WdkIndexerApiError msg (get_prop data (ascii ''status''))
                   (get_prop data (ascii ''error'')))))) \<and>
         (isApiError data = Inr False \<longrightarrow>
            result (request c m path options) =
              Some (Inl (WdkIndexerApiError
                (ascii ''HTTP '' @ number_to_string (status response) @ ascii '': '' @
                   statusText response)
                (JNum (status response)) (JStr (ascii ''UnknownError'')))))"
  using request_settled [OF assms(1,2)] assms(3,4) key_names_distinct
  by (auto simp add: settle_def try_block_def throw_new_WdkIndexerApiError_def
      new_WdkIndexerApiError_def Error_message_def catch_clause_def)

text \<open>
  The executor raises the base class \<open>WdkIndexerError\<close> only when the transport or the
  body reader threw it: of its own it raises the three subclasses.
\<close>

lemma js_to_string_throws_TypeError:
  "js_to_string v = Inl e \<Longrightarrow> \<exists>m. e = TypeError m"
  "js_join xs = Inl e \<Longrightarrow> \<exists>m. e = TypeError m"
  by (induction v and xs rule: js_to_string_js_join.induct)
    (auto split: sum.splits if_splits)

lemma try_block_base_error:
  assumes "try_block s = Inl e" and "ConfigurationError e"
  shows "s = Inl e \<or> (\<exists>response. s = Inr response \<and> json response = Inl e)"
  using assms
  by (auto simp add: try_block_def ConfigurationError_def throw_new_WdkIndexerApiError_def
      new_WdkIndexerApiError_def Error_message_def TypeError_def isApiError_iff
      split: sum.splits if_splits thrown.splits dest: js_to_string_throws_TypeError)

lemma base_error_comes_from_the_transport:
  assumes "result (request c m path options) = Some (Inl e)" and "ConfigurationError e"
  shows "\<exists>s. (fetchFn c (build_request c m path options) = SettlesFirst s \<or>
              fetchFn c (build_request c m path options) = TimerFirst (Some s)) \<and>
             (s = Inl e \<or> (\<exists>response. s = Inr response \<and> json response = Inl e))"
proof -
  from assms(1) obtain s where
    run: "fetchFn c (build_request c m path options) = SettlesFirst s \<or>
          fetchFn c (build_request c m path options) = TimerFirst (Some s)"
    and settled: "settle c s = Inl e"
    by (auto simp add: request_def Let_def split: transport_run.splits option.splits)
  from settled obtain e' where thrown: "try_block s = Inl e'" and caught: "catch_clause c e' = e"
    by (auto simp add: settle_def split: sum.splits)
  from caught assms(2) have "e' = e"
    by (cases e')
      (auto simp add: catch_clause_def ConfigurationError_def new_WdkIndexerTimeoutError_def
        split: if_splits)
  with thrown assms(2) have "s = Inl e \<or> (\<exists>response. s = Inr response \<and> json response = Inl e)"
    by (simp add: try_block_base_error)
  with run show ?thesis
    by blast
qed

text \<open>
  Claim C1 asks that every response with a non-success status fails with an
  \<open>ApiError\<close>, built from the status and the status text when the body is no API
  error payload.  The code reads the body before it looks at the status: a response with
  status 502 whose body is no JSON makes \<open>health()\<close> fail with a
  \<open>WdkIndexerNetworkError\<close> that wraps the \<open>SyntaxError\<close> of the parser.
\<close>

theorem non_json_error_body_raises_NetworkError:
  "\<not> ok bad_gateway \<and>
   result (health (test_client (responds bad_gateway))) =
     Some (Inl (WdkIndexerNetworkError (ascii ''Unexpected token < in JSON at position 0'')
       (Some (JsError (ascii ''SyntaxError'')
          (ascii ''Unexpected token < in JSON at position 0'')))))"
  by (simp add: health_def test_client_def responds_def bad_gateway_def request_def
      build_request_def settle_def try_block_def catch_clause_def ascii_def)

section \<open>Properties of the batch operations\<close>

lemma batch_verbatim:
  assumes "sent (request c m path options) = Some req"
    and "fetchFn c req = SettlesFirst (Inr response) \<or>
         fetchFn c req = TimerFirst (Some (Inr response))"
    and "ok response" and "json response = Inr data"
  shows "result (request c m path options) = Some (Inr data)"
  using request_settled [OF assms(1,2)] assms(3,4)
  by (simp add: settle_def try_block_def)

text \<open>
  Claim C5, as the code has it.  When the POST of a batch operation completes with a
  success status and a body that parses, the operation returns the parsed body as it is,
  whatever its items are: an item that reports a failure is data in the returned value
  and raises nothing, and the length and order of the array are those the server sent.
  Whenever a batch operation does fail, it fails with one of the client's typed errors.
\<close>

theorem batch_returns_body_verbatim:
  "(\<forall>req response data.
      sent (getBatchTokenTransfers c requests) = Some req \<and>
      (fetchFn c req = SettlesFirst (Inr response) \<or>
       fetchFn c req = TimerFirst (Some (Inr response))) \<and>
      ok response \<and> json response = Inr data \<longrightarrow>
      result (getBatchTokenTransfers c requests) = Some (Inr data)) \<and>
   (\<forall>req response data.
      sent (getBatchTokenBalances c requests) = Some req \<and>
      (fetchFn c req = SettlesFirst (Inr response) \<or>
       fetchFn c req = TimerFirst (Some (Inr response))) \<and>
      ok response \<and> json response = Inr data \<longrightarrow>
      result (getBatchTokenBalances c requests) = Some (Inr data)) \<and>
   (\<forall>e. result (getBatchTokenTransfers c requests) = Some (Inl e) \<or>
        result (getBatchTokenBalances c requests) = Some (Inl e) \<longrightarrow>
        instanceof_WdkIndexerError e)"
  unfolding getBatchTokenTransfers_def getBatchTokenBalances_def
  by (blast intro: batch_verbatim request_failures_typed)

theorem batch_returns_body_verbatim_witness:
  "sent (getBatchTokenTransfers (test_client (responds (ok_response
      (JArr [JObj [(ascii ''transfers'', JArr [])],
             error_shape (JStr (ascii ''NotFound'')) (JStr (ascii ''Address not found'')) (JNum 404)]))))
      (JArr [sample_request (ascii ''ethereum'') (ascii ''0x1234''),
             sample_request (ascii ''tron'') (ascii ''T1234'')])) \<noteq> None \<and>
   result (getBatchTokenTransfers (test_client (responds (ok_response
      (JArr [JObj [(ascii ''transfers'', JArr [])],
             error_shape (JStr (ascii ''NotFound'')) (JStr (ascii ''Address not found'')) (JNum 404)]))))
      (JArr [sample_request (ascii ''ethereum'') (ascii ''0x1234''),
             sample_request (ascii ''tron'') (ascii ''T1234'')])) =
     Some (Inr (JArr [JObj [(ascii ''transfers'', JArr [])],
             error_shape (JStr (ascii ''NotFound'')) (JStr (ascii ''Address not found'')) (JNum 404)])) \<and>
   result (getBatchTokenBalances (test_client refuses_connection)
      (JArr [sample_request (ascii ''ethereum'') (ascii ''0x1234'')])) =
     Some (Inl (WdkIndexerNetworkError (ascii ''Connection refused'')
       (Some (JsError (ascii ''Error'') (ascii ''Connection refused''))))) \<and>
   instanceof_WdkIndexerError (WdkIndexerNetworkError (ascii ''Connection refused'')
       (Some (JsError (ascii ''Error'') (ascii ''Connection refused''))))"
  using
    batch_returns_body_verbatim
      [of "test_client (responds (ok_response
            (JArr [JObj [(ascii ''transfers'', JArr [])],
               error_shape (JStr (ascii ''NotFound'')) (JStr (ascii ''Address not found'')) (JNum 404)])))"
          "JArr [sample_request (ascii ''ethereum'') (ascii ''0x1234''),
             sample_request (ascii ''tron'') (ascii ''T1234'')]"]
    batch_returns_body_verbatim
      [of "test_client refuses_connection"
          "JArr [sample_request (ascii ''ethereum'') (ascii ''0x1234'')]"]
  by (simp add: getBatchTokenTransfers_def getBatchTokenBalances_def sent_request test_client_def
      responds_def ok_response_def refuses_connection_def request_def build_request_def
      request_url_def settle_def try_block_def catch_clause_def ascii_def)

text \<open>
  Claim C5 as stated fails on the length: the client does not compare the response with
  the request array.  For a batch of two requests and a server that answers with the
  empty array, the operation returns the empty array.
\<close>

theorem batch_response_length_is_the_servers:
  "result (getBatchTokenBalances (test_client (responds (ok_response (JArr []))))
      (JArr [sample_request (ascii ''ethereum'') (ascii ''0x1234''),
             sample_request (ascii ''tron'') (ascii ''T1234'')])) = Some (Inr (JArr [])) \<and>
   length ([] :: jsval list) \<noteq>
     length [sample_request (ascii ''ethereum'') (ascii ''0x1234''),
             sample_request (ascii ''tron'') (ascii ''T1234'')]"
  by (simp add: getBatchTokenBalances_def test_client_def responds_def ok_response_def
      request_def build_request_def settle_def try_block_def)

section \<open>Properties of the address encoding\<close>

lemma uri_unescaped_not_surrogate:
  "uri_unescaped c \<Longrightarrow> \<not> is_low_surrogate c \<and> \<not> is_high_surrogate c"
  by (auto simp add: uri_unescaped_def is_alnum_def is_low_surrogate_def is_high_surrogate_def
      word_le_nat_alt)

lemma surrogates_disjoint: "is_high_surrogate c \<Longrightarrow> \<not> is_low_surrogate c"
  by (simp add: is_high_surrogate_def is_low_surrogate_def word_le_nat_alt)

lemma unat_code_unit: "n < 65536 \<Longrightarrow> unat (of_nat n :: code_unit) = n"
  by (simp add: unat_of_nat)

lemma unat_hex_digit: "d < 16 \<Longrightarrow> unat (hex_digit d) = (if d < 10 then 48 + d else 55 + d)"
  unfolding hex_digit_def by (simp only: unat_code_unit split: if_splits) simp

lemma hex_digit_safe: "d < 16 \<Longrightarrow> path_safe (hex_digit d)"
  by (auto simp add: path_safe_def uri_unescaped_def is_alnum_def unat_hex_digit)

lemma percent_octet_safe: "u \<in> set (percent_octet b) \<Longrightarrow> path_safe u"
proof -
  have "unat b < 256"
    using unsigned_less [of b, where ?'a = nat] by simp
  then have "unat b div 16 < 16"
    by simp
  moreover have "path_safe 0x25"
    by (simp add: path_safe_def)
  moreover assume "u \<in> set (percent_octet b)"
  ultimately show ?thesis
    by (auto simp add: percent_octet_def hex_digit_safe)
qed

lemma encodeURIComponent_safe:
  "encodeURIComponent s = Inr encoded \<Longrightarrow> u \<in> set encoded \<Longrightarrow> path_safe u"
proof (induction s arbitrary: encoded rule: encodeURIComponent.induct)
  case 1
  then show ?case by simp
next
  case (2 c cs)
  show ?case
  proof (cases "uri_unescaped c")
    case True
    with 2 show ?thesis
      by (auto simp add: prepend_def path_safe_def split: sum.splits)
  next
    case False
    with 2 show ?thesis
      by (auto simp add: prepend_def split: sum.splits if_splits list.splits
          dest: percent_octet_safe)
  qed
qed

lemma encodeURIComponent_total:
  "well_formed s \<longleftrightarrow> (\<exists>encoded. encodeURIComponent s = Inr encoded)"
proof (induction s rule: encodeURIComponent.induct)
  case 1
  then show ?case by simp
next
  case (2 c cs)
  show ?case
  proof (cases "uri_unescaped c")
    case True
    with 2 uri_unescaped_not_surrogate [of c] show ?thesis
      by (auto simp add: prepend_def split: sum.splits)
  next
    case False
    with 2 show ?thesis
      by (auto simp add: prepend_def surrogates_disjoint split: sum.splits list.splits)
  qed
qed

lemma sent_url:
  "map_option url (sent (request c m path options)) = Some (request_url c path options)"
  by (simp add: sent_request build_request_def)

lemma slash_not_safe: "\<not> path_safe 0x2F \<and> \<not> path_safe 0x3F \<and> \<not> path_safe 0x23"
  by (simp add: path_safe_def uri_unescaped_def is_alnum_def)

lemma request_url_no_query: "request_url c path None = baseUrl c @ path"
  by (simp add: request_url_def)

lemma request_url_prefix: "\<exists>q. request_url c path options = baseUrl c @ path @ q"
  by (auto simp add: request_url_def Let_def split: option.splits)

lemma encode_sample_address:
  "encodeURIComponent (ascii ''0x1234/5678'') = Inr (ascii ''0x1234%2F5678'')"
  by (simp add: ascii_def uri_unescaped_def is_alnum_def is_low_surrogate_def
      is_high_surrogate_def prepend_def utf8_def percent_octet_def hex_digit_def)

text \<open>
  Claim C8, as the code has it.  For every address string that is well-formed UTF-16,
  \<open>getTokenTransfers\<close> and \<open>getTokenBalance\<close> build the request URL with the address
  segment percent-encoded: the segment consists of unescaped code units and \<open>%XX\<close>
  escapes only, so that it holds no \<open>/\<close>, \<open>?\<close> or \<open>#\<close> and cannot alter the
  structure of the path.  In particular the address \<open>0x1234/5678\<close> appears in the URL
  as \<open>0x1234%2F5678\<close>.
\<close>

theorem address_segment_percent_encoded:
  "(well_formed address \<longrightarrow>
      (\<exists>encoded q.
         encodeURIComponent address = Inr encoded \<and>
         (\<forall>u \<in> set encoded. path_safe u) \<and>
         0x2F \<notin> set encoded \<and> 0x3F \<notin> set encoded \<and> 0x23 \<notin> set encoded \<and>
         map_option url (sent (getTokenTransfers c blockchain token address options)) =
           Some (baseUrl c @ ascii ''/api/v1/'' @ blockchain @ ascii ''/'' @ token @ ascii ''/'' @
                 encoded @ ascii ''/token-transfers'' @ q) \<and>
         map_option url (sent (getTokenBalance c blockchain token address)) =
           Some (baseUrl c @ ascii ''/api/v1/'' @ blockchain @ ascii ''/'' @ token @ ascii ''/'' @
                 encoded @ ascii ''/token-balances''))) \<and>
   (\<exists>u. map_option url
          (sent (getTokenTransfers c blockchain token (ascii ''0x1234/5678'') options)) = Some u \<and>
        sublist (ascii ''0x1234%2F5678'') u) \<and>
   (\<exists>u. map_option url
          (sent (getTokenBalance c blockchain token (ascii ''0x1234/5678''))) = Some u \<and>
        sublist (ascii ''0x1234%2F5678'') u)"
proof (intro conjI impI)
  assume "well_formed address"
  then obtain encoded where enc: "encodeURIComponent address = Inr encoded"
    using encodeURIComponent_total by blast
  then have safe: "\<forall>u \<in> set encoded. path_safe u"
    using encodeURIComponent_safe by blast
  with slash_not_safe have none: "0x2F \<notin> set encoded \<and> 0x3F \<notin> set encoded \<and> 0x23 \<notin> set encoded"
    by blast
  obtain q where q:
    "request_url c
       (ascii ''/api/v1/'' @ blockchain @ ascii ''/'' @ token @ ascii ''/'' @ encoded @
          ascii ''/token-transfers'')
       (Some \<lparr> query =
                 Some [(ascii ''limit'', optional_number options limit),
                       (ascii ''fromTs'', optional_number options fromTs),
                       (ascii ''toTs'', optional_number options toTs)],
               options_body = JUndefined \<rparr>) =
     baseUrl c @ (ascii ''/api/v1/'' @ blockchain @ ascii ''/'' @ token @ ascii ''/'' @ encoded @
          ascii ''/token-transfers'') @ q"
    using request_url_prefix by blast
  have transfers:
    "map_option url (sent (getTokenTransfers c blockchain token address options)) =
       Some (baseUrl c @ ascii ''/api/v1/'' @ blockchain @ ascii ''/'' @ token @ ascii ''/'' @
             encoded @ ascii ''/token-transfers'' @ q)"
    using enc q by (simp add: getTokenTransfers_def sent_url)
  have balance:
    "map_option url (sent (getTokenBalance c blockchain token address)) =
       Some (baseUrl c @ ascii ''/api/v1/'' @ blockchain @ ascii ''/'' @ token @ ascii ''/'' @
             encoded @ ascii ''/token-balances'')"
    using enc by (simp add: getTokenBalance_def sent_url request_url_no_query)
  from enc safe none transfers balance
  show "\<exists>encoded q.
         encodeURIComponent address = Inr encoded \<and>
         (\<forall>u \<in> set encoded. path_safe u) \<and>
         0x2F \<notin> set encoded \<and> 0x3F \<notin> set encoded \<and> 0x23 \<notin> set encoded \<and>
         map_option url (sent (getTokenTransfers c blockchain token address options)) =
           Some (baseUrl c @ ascii ''/api/v1/'' @ blockchain @ ascii ''/'' @ token @ ascii ''/'' @
                 encoded @ ascii ''/token-transfers'' @ q) \<and>
         map_option url (sent (getTokenBalance c blockchain token address)) =
           Some (baseUrl c @ ascii ''/api/v1/'' @ blockchain @ ascii ''/'' @ token @ ascii ''/'' @
                 encoded @ ascii ''/token-balances'')"
    by blast
next
  obtain q where q:
    "request_url c
       (ascii ''/api/v1/'' @ blockchain @ ascii ''/'' @ token @ ascii ''/'' @
          ascii ''0x1234%2F5678'' @ ascii ''/token-transfers'')
       (Some \<lparr> query =
                 Some [(ascii ''limit'', optional_number options limit),
                       (ascii ''fromTs'', optional_number options fromTs),
                       (ascii ''toTs'', optional_number options toTs)],
               options_body = JUndefined \<rparr>) =
     baseUrl c @ (ascii ''/api/v1/'' @ blockchain @ ascii ''/'' @ token @ ascii ''/'' @
          ascii ''0x1234%2F5678'' @ ascii ''/token-transfers'') @ q"
    using request_url_prefix by blast
  have "sublist (ascii ''0x1234%2F5678'')
          ((baseUrl c @ ascii ''/api/v1/'' @ blockchain @ ascii ''/'' @ token @ ascii ''/'') @
             ascii ''0x1234%2F5678'' @ (ascii ''/token-transfers'' @ q))"
    by (rule sublist_appendI)
  then show "\<exists>u. map_option url
          (sent (getTokenTransfers c blockchain token (ascii ''0x1234/5678'') options)) = Some u \<and>
        sublist (ascii ''0x1234%2F5678'') u"
    using q by (simp add: getTokenTransfers_def encode_sample_address sent_url)
next
  have "sublist (ascii ''0x1234%2F5678'')
          ((baseUrl c @ ascii ''/api/v1/'' @ blockchain @ ascii ''/'' @ token @ ascii ''/'') @
             ascii ''0x1234%2F5678'' @ ascii ''/token-balances'')"
    by (rule sublist_appendI)
  then show "\<exists>u. map_option url
          (sent (getTokenBalance c blockchain token (ascii ''0x1234/5678''))) = Some u \<and>
        sublist (ascii ''0x1234%2F5678'') u"
    by (simp add: getTokenBalance_def encode_sample_address sent_url request_url_no_query)
qed

theorem address_segment_percent_encoded_witness:
  "well_formed (ascii ''0x1234/5678'') \<and>
   encodeURIComponent (ascii ''0x1234/5678'') = Inr (ascii ''0x1234%2F5678'') \<and>
   0x2F \<notin> set (ascii ''0x1234%2F5678'') \<and>
   map_option url (sent (getTokenBalance (test_client never_settles) (ascii ''ethereum'')
      (ascii ''usdt'') (ascii ''0x1234/5678''))) =
     Some (ascii ''https://wdk-api.tether.io/api/v1/ethereum/usdt/0x1234%2F5678/token-balances'') \<and>
   map_option url (sent (getTokenTransfers (test_client never_settles) (ascii ''ethereum'')
      (ascii ''usdt'') (ascii ''0x1234/5678'') None)) =
     Some (ascii ''https://wdk-api.tether.io/api/v1/ethereum/usdt/0x1234%2F5678/token-transfers'')"
  using
    address_segment_percent_encoded
      [of "ascii ''0x1234/5678''" "test_client never_settles" "ascii ''ethereum''"
          "ascii ''usdt''" None]
  by (simp add: encode_sample_address getTokenBalance_def getTokenTransfers_def sent_url
      request_url_def test_client_def optional_number_def params_toString_def)
    (simp add: ascii_def is_high_surrogate_def is_low_surrogate_def)

text \<open>
  Claim C8 as stated, for every address string, fails for an address with a lone
  surrogate: \<open>encodeURIComponent\<close> throws, no URL is built and the transport is not
  called.
\<close>

theorem lone_surrogate_address_builds_no_url:
  "\<not> well_formed [0xD800] \<and>
   encodeURIComponent [0xD800] = Inl URIError \<and>
   sent (getTokenBalance (test_client never_settles) (ascii ''ethereum'') (ascii ''usdt'')
     [0xD800]) = None \<and>
   sent (getTokenTransfers (test_client never_settles) (ascii ''ethereum'') (ascii ''usdt'')
     [0xD800] None) = None"
  by (simp add: getTokenBalance_def getTokenTransfers_def rejected_def
      uri_unescaped_def is_alnum_def is_low_surrogate_def is_high_surrogate_def)

text \<open>
  Every failure of \<open>health\<close> and of the batch operations is a typed error of the
  client, and so is every failure of the two operations that take an address when the
  address is well-formed.
\<close>

lemma operations_failures_typed:
  "(result (health c) = Some (Inl e) \<longrightarrow> instanceof_WdkIndexerError e) \<and>
   (result (getBatchTokenTransfers c requests) = Some (Inl e) \<longrightarrow> instanceof_WdkIndexerError e) \<and>
   (result (getBatchTokenBalances c requests) = Some (Inl e) \<longrightarrow> instanceof_WdkIndexerError e) \<and>
   (well_formed address \<longrightarrow>
      (result (getTokenTransfers c blockchain token address options) = Some (Inl e) \<longrightarrow>
         instanceof_WdkIndexerError e) \<and>
      (result (getTokenBalance c blockchain token address) = Some (Inl e) \<longrightarrow>
         instanceof_WdkIndexerError e))"
  using encodeURIComponent_total [of address]
  by (auto simp add: health_def getBatchTokenTransfers_def getBatchTokenBalances_def
      getTokenTransfers_def getTokenBalance_def dest: request_failures_typed)

text \<open>
  Claim C2 asks that no untyped error escapes an operation.  The address is encoded
  before the executor and its \<open>try\<close> block are entered: for an address with a lone
  surrogate, \<open>getTokenBalance\<close> and \<open>getTokenTransfers\<close> reject with the
  \<open>URIError\<close> of \<open>encodeURIComponent\<close>, which is none of the client's error
  classes, whatever the transport.
\<close>

theorem lone_surrogate_address_raises_URIError:
  "result (getTokenBalance (test_client f) (ascii ''ethereum'') (ascii ''usdt'') [0xD800]) =
     Some (Inl URIError) \<and>
   result (getTokenTransfers (test_client f) (ascii ''ethereum'') (ascii ''usdt'') [0xD800]
     options) = Some (Inl URIError) \<and>
   \<not> instanceof_WdkIndexerError URIError"
  by (simp add: getTokenBalance_def getTokenTransfers_def rejected_def URIError_def
      uri_unescaped_def is_alnum_def is_low_surrogate_def is_high_surrogate_def)

section \<open>Properties of the query string\<close>

lemma append_entries_eq: "append_entries entries params = params @ included_entries entries"
  by (induction entries arbitrary: params)
    (auto simp add: included_entries_def params_append_def)

lemma join_amp_empty: "[] \<notin> set ps \<Longrightarrow> join_amp ps = [] \<longleftrightarrow> ps = []"
  by (cases ps rule: join_amp.cases) auto

lemma params_toString_empty: "params_toString params = [] \<longleftrightarrow> params = []"
  unfolding params_toString_def
  by (subst join_amp_empty) auto

lemma join_amp_drops_first_ampersand: "join_amp ps = tl (concat (map ((#) 0x26) ps))"
  by (induction ps rule: join_amp.induct) simp_all

lemma params_toString_spec: "params_toString params = spec_query_string params"
proof -
  have "map ((#) 0x26) (map (\<lambda>(name, val). form_urlencode name @ 0x3D # form_urlencode val) params) =
        map (\<lambda>(name, val). 0x26 # form_urlencode name @ 0x3D # form_urlencode val) params"
    by (simp add: case_prod_beta)
  then show ?thesis
    by (simp only: params_toString_def spec_query_string_def join_amp_drops_first_ampersand)
qed

lemma request_url_spec:
  "request_url c path (Some \<lparr> query = Some entries, options_body = b \<rparr>) =
     spec_url c path entries"
  by (simp add: request_url_def spec_url_def Let_def append_entries_eq params_toString_empty
      params_toString_spec [symmetric])

lemma unat_octet_of_unit:
  "unat (u :: code_unit) < 128 \<Longrightarrow> unat (ucast u :: 8 word) = unat u"
  by (simp add: unsigned_ucast_eq take_bit_nat_eq_self)

lemma unit_of_octet_of_unit:
  "unat (u :: code_unit) < 128 \<Longrightarrow> (ucast (ucast u :: 8 word) :: code_unit) = u"
  by (rule word_unat_eq_iff [THEN iffD2])
    (simp add: unsigned_ucast_eq unsigned_take_bit_eq take_bit_nat_eq_self)

lemma form_urlencode_Cons_plain:
  assumes "form_plain u"
  shows "form_urlencode (u # s) = u # form_urlencode s"
proof -
  from assms have small: "unat u < 128"
    by (auto simp add: form_plain_def is_alnum_def)
  then have ns: "\<not> is_high_surrogate u \<and> \<not> is_low_surrogate u"
    by (simp add: is_high_surrogate_def is_low_surrogate_def word_le_nat_alt)
  have ne: "(ucast u :: 8 word) \<noteq> 0x20"
  proof
    assume "(ucast u :: 8 word) = 0x20"
    then have "unat (ucast u :: 8 word) = unat (0x20 :: 8 word)"
      by (rule arg_cong)
    with small have "unat u = 32"
      by (simp add: unat_octet_of_unit)
    with assms show False
      by (simp add: form_plain_def is_alnum_def)
  qed
  have octet: "form_octet (ucast u) = [u]"
    using assms ne small
    by (simp add: form_octet_def form_plain_def unat_octet_of_unit unit_of_octet_of_unit)
  from small ns octet show ?thesis
    by (simp add: form_urlencode_def utf8_def)
qed

lemma form_urlencode_plain: "\<forall>u \<in> set s. form_plain u \<Longrightarrow> form_urlencode s = s"
proof (induction s)
  case Nil
  show ?case by (simp add: form_urlencode_def)
next
  case (Cons u s)
  then show ?case by (simp add: form_urlencode_Cons_plain)
qed

lemma unat_digit_unit: "d < 10 \<Longrightarrow> unat (digit_unit d) = 48 + d"
  unfolding digit_unit_def by (simp only: unat_code_unit) 

lemma nat_digits_are_digits:
  "u \<in> set (nat_digits n) \<Longrightarrow> 48 \<le> unat u \<and> unat u \<le> 57"
proof (induction n rule: nat_digits.induct)
  case (1 n)
  show ?case
  proof (cases "n < 10")
    case True
    with 1(2) show ?thesis
      by (simp add: nat_digits.simps [of n] unat_digit_unit)
  next
    case False
    with 1 show ?thesis
      by (auto simp add: nat_digits.simps [of n] unat_digit_unit)
  qed
qed

lemma number_to_string_units:
  "is_safe_integer i \<Longrightarrow> u \<in> set (number_to_string i) \<Longrightarrow>
     (48 \<le> unat u \<and> unat u \<le> 57) \<or> u = 0x2D"
  by (auto simp add: number_to_string_def dest: nat_digits_are_digits split: if_splits)

lemma number_to_string_plain:
  "is_safe_integer i \<Longrightarrow> u \<in> set (number_to_string i) \<Longrightarrow> form_plain u"
  by (auto simp add: form_plain_def is_alnum_def dest!: number_to_string_units)

lemma form_urlencode_number:
  "is_safe_integer i \<Longrightarrow> form_urlencode (number_to_string i) = number_to_string i"
  by (rule form_urlencode_plain) (simp add: number_to_string_plain)

lemma form_urlencode_limit: "form_urlencode (ascii ''limit'') = ascii ''limit''"
  by (rule form_urlencode_plain) (simp add: ascii_def form_plain_def is_alnum_def)

lemma equals_not_safe: "\<not> path_safe 0x3D"
  by (simp add: path_safe_def uri_unescaped_def is_alnum_def)

lemma sublist_skips_other_units:
  "c \<notin> set r \<Longrightarrow> sublist (n0 @ [c]) (p @ r) \<Longrightarrow> sublist (n0 @ [c]) p"
proof (induction r rule: rev_induct)
  case Nil
  then show ?case by simp
next
  case (snoc y r)
  from snoc.prems(2) have "sublist (n0 @ [c]) ((p @ r) @ [y])"
    by simp
  then have "c = y \<and> suffix n0 (p @ r) \<or> sublist (n0 @ [c]) (p @ r)"
    by (simp only: snoc_sublist_snoc)
  with snoc.prems(1) have "sublist (n0 @ [c]) (p @ r)"
    by auto
  with snoc show ?case by simp
qed

lemma sublist_at_the_only_unit:
  assumes "sublist (n0 @ [c]) (p @ r @ c # d)" and "c \<notin> set r" and "c \<notin> set d"
  shows "suffix n0 (p @ r) \<or> sublist (n0 @ [c]) p"
proof -
  from assms(1) have "sublist (n0 @ [c]) ((p @ r @ [c]) @ d)"
    by simp
  with assms(3) have "sublist (n0 @ [c]) (p @ r @ [c])"
    by (rule sublist_skips_other_units)
  then have "sublist (n0 @ [c]) ((p @ r) @ [c])"
    by simp
  then have "c = c \<and> suffix n0 (p @ r) \<or> sublist (n0 @ [c]) (p @ r)"
    by (simp only: snoc_sublist_snoc)
  then consider "suffix n0 (p @ r)" | "sublist (n0 @ [c]) (p @ r)"
    by blast
  then show ?thesis
  proof cases
    case 1
    then show ?thesis by (rule disjI1)
  next
    case 2
    with assms(2) have "sublist (n0 @ [c]) p"
      by (rule sublist_skips_other_units)
    then show ?thesis by (rule disjI2)
  qed
qed

lemma suffix_of_longer_tail:
  assumes "suffix xs (ys @ zs)" and "length xs \<le> length zs"
  shows "suffix xs zs"
  using assms by (auto simp add: suffix_append)

lemma form_octet_no_equals: "0x3D \<notin> set (form_octet b)"
proof (cases "b = 0x20")
  case True
  then show ?thesis by (simp add: form_octet_def)
next
  case False
  show ?thesis
  proof (cases "is_alnum (unat b) \<or> unat b \<in> {0x2A, 0x2D, 0x2E, 0x5F}")
    case True
    have "(ucast b :: code_unit) \<noteq> 0x3D"
    proof
      assume "(ucast b :: code_unit) = 0x3D"
      then have "unat (ucast b :: code_unit) = unat (0x3D :: code_unit)"
        by (rule arg_cong)
      moreover have "unat b < 2 ^ 16"
        using unsigned_less [of b, where ?'a = nat] by simp
      ultimately have "unat b = 61"
        by (simp add: unsigned_ucast_eq take_bit_nat_eq_self)
      with True show False
        by (simp add: is_alnum_def)
    qed
    with True False show ?thesis
      by (auto simp add: form_octet_def)
  next
    case other: False
    with False have "form_octet b = percent_octet b"
      by (simp add: form_octet_def)
    with equals_not_safe percent_octet_safe show ?thesis
      by auto
  qed
qed

lemma form_urlencode_no_equals: "0x3D \<notin> set (form_urlencode s)"
  by (auto simp add: form_urlencode_def form_octet_no_equals)

lemma limit_only_url:
  assumes "encodeURIComponent address = Inr encoded"
  shows "map_option url (sent (getTokenTransfers c blockchain token address
           (Some \<lparr> limit = Some n, fromTs = None, toTs = None \<rparr>))) =
         Some ((baseUrl c @ ascii ''/api/v1/'' @ blockchain @ ascii ''/'' @ token) @
               (ascii ''/'' @ encoded @ ascii ''/token-transfers?limit'') @
               0x3D # form_urlencode (number_to_string n))"
proof -
  have "spec_query_string
          (included_entries
             [(ascii ''limit'', QNumber n), (ascii ''fromTs'', QUndefined),
              (ascii ''toTs'', QUndefined)]) =
        ascii ''limit'' @ 0x3D # form_urlencode (number_to_string n)"
    by (simp add: included_entries_def spec_query_string_def form_urlencode_limit)
  then have "spec_url c
          (ascii ''/api/v1/'' @ blockchain @ ascii ''/'' @ token @ ascii ''/'' @ encoded @
             ascii ''/token-transfers'')
          [(ascii ''limit'', QNumber n), (ascii ''fromTs'', QUndefined),
           (ascii ''toTs'', QUndefined)] =
        (baseUrl c @ ascii ''/api/v1/'' @ blockchain @ ascii ''/'' @ token) @
        (ascii ''/'' @ encoded @ ascii ''/token-transfers?limit'') @
        0x3D # form_urlencode (number_to_string n)"
    by (simp add: spec_url_def included_entries_def) (simp add: ascii_def)
  with assms show ?thesis
    by (simp add: getTokenTransfers_def sent_url request_url_spec optional_number_def)
qed

lemma needle_not_in_limit_only_url:
  assumes safe: "\<forall>u \<in> set encoded. path_safe u"
    and len: "length n0 \<le> 6"
    and tail: "\<not> suffix n0 (ascii ''?limit'')"
    and verbatim: "\<not> sublist (n0 @ [0x3D]) p"
  shows "\<not> sublist (n0 @ [0x3D])
           (p @ (ascii ''/'' @ encoded @ ascii ''/token-transfers?limit'') @
              0x3D # form_urlencode (number_to_string n))"
proof
  assume "sublist (n0 @ [0x3D])
            (p @ (ascii ''/'' @ encoded @ ascii ''/token-transfers?limit'') @
               0x3D # form_urlencode (number_to_string n))"
  moreover have "0x3D \<notin> set (ascii ''/'' @ encoded @ ascii ''/token-transfers?limit'')"
    using safe equals_not_safe by (auto simp add: ascii_def)
  moreover note form_urlencode_no_equals [of "number_to_string n"]
  ultimately have "suffix n0 (p @ ascii ''/'' @ encoded @ ascii ''/token-transfers?limit'') \<or>
      sublist (n0 @ [0x3D]) p"
    by (rule sublist_at_the_only_unit)
  with verbatim have "suffix n0 (p @ ascii ''/'' @ encoded @ ascii ''/token-transfers?limit'')"
    by simp
  moreover have "ascii ''/token-transfers?limit'' = ascii ''/token-transfers'' @ ascii ''?limit''"
    by (simp add: ascii_def)
  ultimately have "suffix n0 ((p @ ascii ''/'' @ encoded @ ascii ''/token-transfers'') @ ascii ''?limit'')"
    by simp
  moreover have "length n0 \<le> length (ascii ''?limit'')"
    using len by (simp add: ascii_def)
  ultimately have "suffix n0 (ascii ''?limit'')"
    by (rule suffix_of_longer_tail)
  with tail show False
    by simp
qed

text \<open>
  Claim C9, as the code has it.  For every query mapping the executor sends the URL
  \<open>baseUrl + path\<close> followed by \<open>?\<close> and a query string that holds exactly the
  entries whose value is not \<open>undefined\<close>, in their order, as \<open>name=value\<close> joined
  by \<open>&\<close> with each value stringified and each name and value form-encoded; no
  \<open>?\<close> follows when no entry remains.  \<open>getTokenTransfers\<close> with only \<open>limit\<close>
  set, for a well-formed address, sends the URL
  \<open>baseUrl/api/v1/blockchain/token/address/token-transfers?limit=n\<close> with the address
  percent-encoded and \<open>n\<close> the form-encoded text of the limit (its decimal digits
  for a safe integer): it contains \<open>limit=\<close>, and it contains \<open>fromTs=\<close> or
  \<open>toTs=\<close> exactly when the text in front of the address (the base URL, the
  blockchain and the token, which are copied as they are) already does.
\<close>

theorem query_string_omits_undefined_entries:
  "map_option url (sent (request c m path (Some \<lparr> query = Some entries, options_body = b \<rparr>))) =
     Some (spec_url c path entries) \<and>
   (well_formed address \<longrightarrow>
      (\<exists>encoded u.
         encodeURIComponent address = Inr encoded \<and>
         map_option url (sent (getTokenTransfers c blockchain token address
           (Some \<lparr> limit = Some n, fromTs = None, toTs = None \<rparr>))) = Some u \<and>
         u = baseUrl c @ ascii ''/api/v1/'' @ blockchain @ ascii ''/'' @ token @ ascii ''/'' @
               encoded @ ascii ''/token-transfers?limit='' @ form_urlencode (number_to_string n) \<and>
         sublist (ascii ''limit='') u \<and>
         sublist (ascii ''fromTs='') u =
           sublist (ascii ''fromTs='')
             (baseUrl c @ ascii ''/api/v1/'' @ blockchain @ ascii ''/'' @ token) \<and>
         sublist (ascii ''toTs='') u =
           sublist (ascii ''toTs='')
             (baseUrl c @ ascii ''/api/v1/'' @ blockchain @ ascii ''/'' @ token))) \<and>
   (is_safe_integer n \<longrightarrow> form_urlencode (number_to_string n) = number_to_string n)"
proof (intro conjI impI)
  show "map_option url
          (sent (request c m path (Some \<lparr> query = Some entries, options_body = b \<rparr>))) =
        Some (spec_url c path entries)"
    by (simp add: sent_url request_url_spec)
next
  assume "well_formed address"
  then obtain encoded where enc: "encodeURIComponent address = Inr encoded"
    using encodeURIComponent_total by blast
  then have safe: "\<forall>u \<in> set encoded. path_safe u"
    using encodeURIComponent_safe by blast
  define p where "p = baseUrl c @ ascii ''/api/v1/'' @ blockchain @ ascii ''/'' @ token"
  define u where
    "u = p @ (ascii ''/'' @ encoded @ ascii ''/token-transfers?limit'') @
           0x3D # form_urlencode (number_to_string n)"
  have sent_u: "map_option url (sent (getTokenTransfers c blockchain token address
           (Some \<lparr> limit = Some n, fromTs = None, toTs = None \<rparr>))) = Some u"
    unfolding u_def p_def using enc by (rule limit_only_url)
  have shape: "u = baseUrl c @ ascii ''/api/v1/'' @ blockchain @ ascii ''/'' @ token @ ascii ''/'' @
               encoded @ ascii ''/token-transfers?limit='' @ form_urlencode (number_to_string n)"
    unfolding u_def p_def by (simp add: ascii_def)
  have "u = (p @ ascii ''/'' @ encoded @ ascii ''/token-transfers?'') @ ascii ''limit='' @
              form_urlencode (number_to_string n)"
    unfolding u_def by (simp add: ascii_def)
  then have has_limit: "sublist (ascii ''limit='') u"
    by (simp only: sublist_appendI)
  have from_ts: "sublist (ascii ''fromTs='') u = sublist (ascii ''fromTs='') p"
  proof
    assume in_u: "sublist (ascii ''fromTs='') u"
    show "sublist (ascii ''fromTs='') p"
    proof (rule ccontr)
      assume "\<not> sublist (ascii ''fromTs='') p"
      then have "\<not> sublist (ascii ''fromTs'' @ [0x3D]) p"
        by (simp add: ascii_def)
      with safe have "\<not> sublist (ascii ''fromTs'' @ [0x3D]) u"
        unfolding u_def
        by (intro needle_not_in_limit_only_url) (simp_all add: ascii_def suffix_to_prefix)
      with in_u show False
        by (simp add: ascii_def)
    qed
  next
    assume "sublist (ascii ''fromTs='') p"
    then show "sublist (ascii ''fromTs='') u"
      unfolding u_def by (simp add: sublist_append)
  qed
  have to_ts: "sublist (ascii ''toTs='') u = sublist (ascii ''toTs='') p"
  proof
    assume in_u: "sublist (ascii ''toTs='') u"
    show "sublist (ascii ''toTs='') p"
    proof (rule ccontr)
      assume "\<not> sublist (ascii ''toTs='') p"
      then have "\<not> sublist (ascii ''toTs'' @ [0x3D]) p"
        by (simp add: ascii_def)
      with safe have "\<not> sublist (ascii ''toTs'' @ [0x3D]) u"
        unfolding u_def
        by (intro needle_not_in_limit_only_url) (simp_all add: ascii_def suffix_to_prefix)
      with in_u show False
        by (simp add: ascii_def)
    qed
  next
    assume "sublist (ascii ''toTs='') p"
    then show "sublist (ascii ''toTs='') u"
      unfolding u_def by (simp add: sublist_append)
  qed
  from enc sent_u shape has_limit from_ts to_ts
  show "\<exists>encoded u.
         encodeURIComponent address = Inr encoded \<and>
         map_option url (sent (getTokenTransfers c blockchain token address
           (Some \<lparr> limit = Some n, fromTs = None, toTs = None \<rparr>))) = Some u \<and>
         u = baseUrl c @ ascii ''/api/v1/'' @ blockchain @ ascii ''/'' @ token @ ascii ''/'' @
               encoded @ ascii ''/token-transfers?limit='' @ form_urlencode (number_to_string n) \<and>
         sublist (ascii ''limit='') u \<and>
         sublist (ascii ''fromTs='') u =
           sublist (ascii ''fromTs='')
             (baseUrl c @ ascii ''/api/v1/'' @ blockchain @ ascii ''/'' @ token) \<and>
         sublist (ascii ''toTs='') u =
           sublist (ascii ''toTs='')
             (baseUrl c @ ascii ''/api/v1/'' @ blockchain @ ascii ''/'' @ token)"
    unfolding p_def by blast
next
  assume "is_safe_integer n"
  then show "form_urlencode (number_to_string n) = number_to_string n"
    by (rule form_urlencode_number)
qed

lemmas form_eval_defs = form_urlencode_def form_octet_def percent_octet_def hex_digit_def
  utf8_def is_alnum_def is_high_surrogate_def is_low_surrogate_def

theorem query_string_omits_undefined_entries_witness:
  "well_formed (ascii ''0x1234'') \<and> is_safe_integer 10 \<and>
   map_option url (sent (getTokenTransfers (test_client never_settles) (ascii ''ethereum'')
      (ascii ''usdt'') (ascii ''0x1234'')
      (Some \<lparr> limit = Some 10, fromTs = None, toTs = None \<rparr>))) =
     Some (ascii ''https://wdk-api.tether.io/api/v1/ethereum/usdt/0x1234/token-transfers?limit=10'') \<and>
   sublist (ascii ''limit='')
     (ascii ''https://wdk-api.tether.io/api/v1/ethereum/usdt/0x1234/token-transfers?limit=10'') \<and>
   \<not> sublist (ascii ''fromTs='')
     (ascii ''https://wdk-api.tether.io/api/v1/ethereum/usdt/0x1234/token-transfers?limit=10'') \<and>
   \<not> sublist (ascii ''toTs='')
     (ascii ''https://wdk-api.tether.io/api/v1/ethereum/usdt/0x1234/token-transfers?limit=10'') \<and>
   map_option url (sent (request (test_client never_settles) GET (ascii ''/x'')
      (Some \<lparr> query =
                Some [(ascii ''limit'', QNumber 10), (ascii ''skip'', QUndefined),
                      (ascii ''fromTs'', QNumber 1000), (ascii ''q'', QString (ascii ''a b&c=d'')),
                      (ascii ''n'', QNumber (- 5))],
              options_body = JUndefined \<rparr>))) =
     Some (ascii ''https://wdk-api.tether.io/x?limit=10&fromTs=1000&q=a+b%26c%3Dd&n=-5'') \<and>
   map_option url (sent (request (test_client never_settles) GET (ascii ''/x'')
      (Some \<lparr> query = Some [(ascii ''a'', QUndefined), (ascii ''b'', QUndefined)],
              options_body = JUndefined \<rparr>))) =
     Some (ascii ''https://wdk-api.tether.io/x'')"
proof -
  have wf: "well_formed (ascii ''0x1234'')"
    by (simp add: ascii_def is_high_surrogate_def is_low_surrogate_def)
  have num: "is_safe_integer 10"
    by (simp add: is_safe_integer_def)
  have enc: "encodeURIComponent (ascii ''0x1234'') = Inr (ascii ''0x1234'')"
    by (simp add: ascii_def uri_unescaped_def is_alnum_def prepend_def)
  have base: "baseUrl (test_client never_settles) @ ascii ''/api/v1/'' @ ascii ''ethereum'' @
      ascii ''/'' @ ascii ''usdt'' = ascii ''https://wdk-api.tether.io/api/v1/ethereum/usdt''"
    by (simp add: test_client_def ascii_def)
  have full: "baseUrl (test_client never_settles) @ ascii ''/api/v1/'' @ ascii ''ethereum'' @
      ascii ''/'' @ ascii ''usdt'' @ ascii ''/'' @ ascii ''0x1234'' @
      ascii ''/token-transfers?limit='' @ form_urlencode (number_to_string 10) =
      ascii ''https://wdk-api.tether.io/api/v1/ethereum/usdt/0x1234/token-transfers?limit=10''"
    by (simp add: form_urlencode_number num) (simp add: test_client_def literal_defs)
  have no_from:
    "\<not> sublist (ascii ''fromTs='') (ascii ''https://wdk-api.tether.io/api/v1/ethereum/usdt'')"
    by (simp add: ascii_def sublist_code)
  have no_to:
    "\<not> sublist (ascii ''toTs='') (ascii ''https://wdk-api.tether.io/api/v1/ethereum/usdt'')"
    by (simp add: ascii_def sublist_code)
  have q1: "spec_url (test_client never_settles) (ascii ''/x'')
      [(ascii ''limit'', QNumber 10), (ascii ''skip'', QUndefined),
       (ascii ''fromTs'', QNumber 1000), (ascii ''q'', QString (ascii ''a b&c=d'')),
       (ascii ''n'', QNumber (- 5))] =
      ascii ''https://wdk-api.tether.io/x?limit=10&fromTs=1000&q=a+b%26c%3Dd&n=-5''"
    by (simp add: spec_url_def included_entries_def spec_query_string_def form_eval_defs
        test_client_def literal_defs)
  have q2: "spec_url (test_client never_settles) (ascii ''/x'')
      [(ascii ''a'', QUndefined), (ascii ''b'', QUndefined)] =
      ascii ''https://wdk-api.tether.io/x''"
    by (simp add: spec_url_def included_entries_def test_client_def ascii_def)
  from
    query_string_omits_undefined_entries
      [of "test_client never_settles" GET "ascii ''/x''"
          "[(ascii ''limit'', QNumber 10), (ascii ''skip'', QUndefined),
            (ascii ''fromTs'', QNumber 1000), (ascii ''q'', QString (ascii ''a b&c=d'')),
            (ascii ''n'', QNumber (- 5))]" JUndefined
          "ascii ''0x1234''" "ascii ''ethereum''" "ascii ''usdt''" 10]
    query_string_omits_undefined_entries
      [of "test_client never_settles" GET "ascii ''/x''"
          "[(ascii ''a'', QUndefined), (ascii ''b'', QUndefined)]" JUndefined
          "ascii ''0x1234''" "ascii ''ethereum''" "ascii ''usdt''" 10]
    wf num enc no_from no_to
  show ?thesis
    by (auto simp add: base full q1 q2)
qed

text \<open>
  Claim C9 as stated fails in its last part, which asks that the URL of
  \<open>getTokenTransfers\<close> with only \<open>limit\<close> set contains no \<open>fromTs=\<close>: the
  blockchain is copied into the path as it is, so the blockchain \<open>fromTs=\<close> puts that
  text into the URL; and for an address with a lone surrogate the call builds no URL.
\<close>

theorem verbatim_blockchain_puts_fromTs_into_url:
  "map_option url (sent (getTokenTransfers (test_client never_settles) (ascii ''fromTs='')
      (ascii ''usdt'') (ascii ''0x1234'')
      (Some \<lparr> limit = Some 10, fromTs = None, toTs = None \<rparr>))) =
     Some (ascii ''https://wdk-api.tether.io/api/v1/fromTs=/usdt/0x1234/token-transfers?limit=10'') \<and>
   sublist (ascii ''fromTs='')
     (ascii ''https://wdk-api.tether.io/api/v1/fromTs=/usdt/0x1234/token-transfers?limit=10'') \<and>
   sent (getTokenTransfers (test_client never_settles) (ascii ''ethereum'') (ascii ''usdt'')
      [0xD800] (Some \<lparr> limit = Some 10, fromTs = None, toTs = None \<rparr>)) = None"
proof -
  have enc: "encodeURIComponent (ascii ''0x1234'') = Inr (ascii ''0x1234'')"
    by (simp add: ascii_def uri_unescaped_def is_alnum_def prepend_def)
  have "map_option url (sent (getTokenTransfers (test_client never_settles) (ascii ''fromTs='')
      (ascii ''usdt'') (ascii ''0x1234'')
      (Some \<lparr> limit = Some 10, fromTs = None, toTs = None \<rparr>))) =
     Some ((baseUrl (test_client never_settles) @ ascii ''/api/v1/'' @ ascii ''fromTs='' @
            ascii ''/'' @ ascii ''usdt'') @
           (ascii ''/'' @ ascii ''0x1234'' @ ascii ''/token-transfers?limit'') @
           0x3D # form_urlencode (number_to_string 10))"
    using enc by (rule limit_only_url)
  then have first: "map_option url (sent (getTokenTransfers (test_client never_settles)
      (ascii ''fromTs='') (ascii ''usdt'') (ascii ''0x1234'')
      (Some \<lparr> limit = Some 10, fromTs = None, toTs = None \<rparr>))) =
     Some (ascii ''https://wdk-api.tether.io/api/v1/fromTs=/usdt/0x1234/token-transfers?limit=10'')"
    by (simp add: form_urlencode_number is_safe_integer_def) (simp add: test_client_def literal_defs)
  have second: "sublist (ascii ''fromTs='')
     (ascii ''https://wdk-api.tether.io/api/v1/fromTs=/usdt/0x1234/token-transfers?limit=10'')"
    by (simp add: ascii_def sublist_code)
  have third: "sent (getTokenTransfers (test_client never_settles) (ascii ''ethereum'')
      (ascii ''usdt'') [0xD800] (Some \<lparr> limit = Some 10, fromTs = None, toTs = None \<rparr>)) = None"
    by (simp add: getTokenTransfers_def rejected_def uri_unescaped_def is_alnum_def
        is_low_surrogate_def is_high_surrogate_def)
  from first second third show ?thesis
    by simp
qed

end
